theory Spec2Isabelle
  imports Complex_Main "HOL-Library.Char_ord" "HOL-Library.List_Lexorder" "HOL-Library.Log_Nat"
    "HOL-Library.State_Monad"
begin

section \<open>Weekly and monthly Ads monitors: period pairing and dashboard formulas\<close>

text \<open>
  The development embeds the period-pairing and formula-generation code of
  \<^verbatim>\<open>weekly-ads-monitor-1-8-9.js\<close> and of the monthly monitor.

  A \<^verbatim>\<open>Date\<close> is its time value, the milliseconds since 1970-01-01T00:00Z. The zone of
  the script, in which \<^verbatim>\<open>getDay\<close>, \<^verbatim>\<open>setDate\<close>, \<^verbatim>\<open>setFullYear\<close> and
  \<^verbatim>\<open>new Date(y, m, d)\<close> work, and the zone of the account, in which
  \<^verbatim>\<open>Utilities.formatDate\<close> writes a date, are two parameters; a date-only string is parsed
  as midnight UTC.

  A finite JavaScript number is the rational it denotes, and the result of an arithmetic
  operation is rounded to the nearest number with a 53-bit significand, ties to even. The
  range of the exponent is not bounded: magnitudes are taken to stay within the range of
  a double, so that no operation on finite numbers overflows or underflows. The
  non-finite results of a division by zero are values of the model. Strings are
  \<^typ>\<open>string\<close>.
\<close>

subsection \<open>Calendar dates\<close>

text \<open>
  The two conversions between a day number (days since 1970-01-01) and a year, a month
  (from 1) and a day of the proleptic Gregorian calendar stand for the arithmetic built
  into \<^verbatim>\<open>Date\<close>; they count years from March, in eras of 400 years.
\<close>

definition days_from_civil :: "int \<Rightarrow> int \<Rightarrow> int \<Rightarrow> int" where
  "days_from_civil y m d =
     (let y' = (if m \<le> 2 then y - 1 else y);
          era = y' div 400;
          yoe = y' - era * 400;
          doy = (153 * (if m > 2 then m - 3 else m + 9) + 2) div 5 + d - 1;
          doe = yoe * 365 + yoe div 4 - yoe div 100 + doy
      in era * 146097 + doe - 719468)"

definition civil_from_days :: "int \<Rightarrow> int \<times> int \<times> int" where
  "civil_from_days z0 =
     (let z = z0 + 719468;
          era = z div 146097;
          doe = z - era * 146097;
          yoe = (doe - doe div 1460 + doe div 36524 - doe div 146096) div 365;
          doy = doe - (365 * yoe + yoe div 4 - yoe div 100);
          mp = (5 * doy + 2) div 153;
          d = doy - (153 * mp + 2) div 5 + 1;
          m = (if mp < 10 then mp + 3 else mp - 9);
          y = yoe + era * 400
      in (if m \<le> 2 then y + 1 else y, m, d))"

definition yearOfDay :: "int \<Rightarrow> int" where
  "yearOfDay day = fst (civil_from_days day)"

definition monthOfDay :: "int \<Rightarrow> int" where
  \<comment> \<open>zero-based, as in JavaScript\<close>
  "monthOfDay day = fst (snd (civil_from_days day)) - 1"

definition dateOfDay :: "int \<Rightarrow> int" where
  "dateOfDay day = snd (snd (civil_from_days day))"

definition weekDay :: "int \<Rightarrow> int" where
  \<comment> \<open>0 = Sunday; 1970-01-01 was a Thursday\<close>
  "weekDay day = (day + 4) mod 7"

definition makeDay :: "int \<Rightarrow> int \<Rightarrow> int \<Rightarrow> int" where
  \<comment> \<open>the day number of year, month index and day of the month; month and day overflow
      are carried\<close>
  "makeDay y mi d = days_from_civil (y + mi div 12) (mi mod 12 + 1) 1 + d - 1"

subsection \<open>Time values and time zones\<close>

definition msPerDay :: int where
  "msPerDay = 86400000"

definition dayOf :: "int \<Rightarrow> int" where
  \<comment> \<open>the day number of a time value\<close>
  "dayOf t = t div msPerDay"

definition timeWithinDay :: "int \<Rightarrow> int" where
  "timeWithinDay t = t mod msPerDay"

definition makeDate :: "int \<Rightarrow> int \<Rightarrow> int" where
  "makeDate day time = day * msPerDay + time"

text \<open>
  A time zone gives the offset from UTC, in milliseconds, that is in force at an instant,
  and the offset by which a local time is read back as an instant (the two differ around
  a change of offset).
\<close>

record timezone =
  utcOffset :: "int \<Rightarrow> int"
  localOffset :: "int \<Rightarrow> int"

definition localTime :: "timezone \<Rightarrow> int \<Rightarrow> int" where
  \<comment> \<open>the local time of an instant\<close>
  "localTime z t = t + utcOffset z t"

definition toUTC :: "timezone \<Rightarrow> int \<Rightarrow> int" where
  \<comment> \<open>the instant of a local time\<close>
  "toUTC z l = l - localOffset z l"

definition fixedZone :: "int \<Rightarrow> timezone" where
  \<comment> \<open>a zone whose offset never changes\<close>
  "fixedZone c = \<lparr>utcOffset = (\<lambda>t. c), localOffset = (\<lambda>l. c)\<rparr>"

definition utc :: timezone where
  "utc = fixedZone 0"

definition msPerHour :: int where
  "msPerHour = 3600000"


subsection \<open>The methods of \<^verbatim>\<open>Date\<close>\<close>

definition getFullYear :: "timezone \<Rightarrow> int \<Rightarrow> int" where
  "getFullYear z t = yearOfDay (dayOf (localTime z t))"

definition getMonth :: "timezone \<Rightarrow> int \<Rightarrow> int" where
  "getMonth z t = monthOfDay (dayOf (localTime z t))"

definition getDate :: "timezone \<Rightarrow> int \<Rightarrow> int" where
  "getDate z t = dateOfDay (dayOf (localTime z t))"

definition getDay :: "timezone \<Rightarrow> int \<Rightarrow> int" where
  "getDay z t = weekDay (dayOf (localTime z t))"

definition newDate :: "timezone \<Rightarrow> int \<Rightarrow> int \<Rightarrow> int \<Rightarrow> int" where
  \<comment> \<open>\<^verbatim>\<open>new Date(year, monthIndex, day)\<close>: local midnight\<close>
  "newDate z y mi d = toUTC z (makeDate (makeDay y mi d) 0)"

definition setDate :: "timezone \<Rightarrow> int \<Rightarrow> int \<Rightarrow> int" where
  \<comment> \<open>\<^verbatim>\<open>date.setDate(n)\<close>: day \<open>n\<close> of the date's own local month, carried, at the same
      local time of day\<close>
  "setDate z t n =
     (let l = localTime z t
      in toUTC z (makeDate (makeDay (yearOfDay (dayOf l)) (monthOfDay (dayOf l)) n)
                    (timeWithinDay l)))"

definition setFullYear :: "timezone \<Rightarrow> int \<Rightarrow> int \<Rightarrow> int" where
  \<comment> \<open>\<^verbatim>\<open>date.setFullYear(y)\<close>: the same local month, day and time of day in year \<open>y\<close>,
      carried (29 Feb becomes 1 Mar)\<close>
  "setFullYear z t y =
     (let l = localTime z t
      in toUTC z (makeDate (makeDay y (monthOfDay (dayOf l)) (dateOfDay (dayOf l)))
                    (timeWithinDay l)))"

subsection \<open>Strings\<close>

definition digitChar :: "nat \<Rightarrow> char" where
  "digitChar n = ''0123456789'' ! (n mod 10)"

fun showNat :: "nat \<Rightarrow> string" where
  "showNat n = (if n < 10 then [digitChar n] else showNat (n div 10) @ [digitChar n])"

declare showNat.simps [simp del]

definition padLeft :: "nat \<Rightarrow> string \<Rightarrow> string" where
  "padLeft w s = replicate (w - length s) (CHR ''0'') @ s"

definition formatDay :: "int \<Rightarrow> string" where
  \<comment> \<open>a day number written as \<^verbatim>\<open>yyyy-MM-dd\<close>\<close>
  "formatDay day =
     (case civil_from_days day of (y, m, d) \<Rightarrow>
        padLeft 4 (showNat (nat y)) @ ''-'' @ padLeft 2 (showNat (nat m)) @ ''-''
          @ padLeft 2 (showNat (nat d)))"

definition formatDate :: "timezone \<Rightarrow> int \<Rightarrow> string" where
  \<comment> \<open>\<^verbatim>\<open>Utilities.formatDate(date, tz, 'yyyy-MM-dd')\<close>\<close>
  "formatDate z t = formatDay (dayOf (localTime z t))"

definition digitVal :: "char \<Rightarrow> nat option" where
  "digitVal c = (let n = (of_char c :: nat) in if 48 \<le> n \<and> n \<le> 57 then Some (n - 48) else None)"

fun readNat :: "nat \<Rightarrow> string \<Rightarrow> nat option" where
  "readNat acc [] = Some acc"
| "readNat acc (c # cs) =
     (case digitVal c of None \<Rightarrow> None | Some v \<Rightarrow> readNat (10 * acc + v) cs)"

definition readYMD :: "char \<Rightarrow> string \<Rightarrow> (int \<times> int \<times> int) option" where
  \<comment> \<open>year, month and day of a string of the shape \<^verbatim>\<open>YYYY?MM?DD\<close>, with the given separator,
      a month from 1 to 12 and a day from 1 to 31\<close>
  "readYMD sep s =
     (if length s = 10 \<and> s ! 4 = sep \<and> s ! 7 = sep then
        (case (readNat 0 (take 4 s), readNat 0 (take 2 (drop 5 s)), readNat 0 (drop 8 s)) of
           (Some y, Some m, Some d) \<Rightarrow>
             (if 1 \<le> m \<and> m \<le> 12 \<and> 1 \<le> d \<and> d \<le> 31 then Some (int y, int m, int d) else None)
         | _ \<Rightarrow> None)
      else None)"

text \<open>
  The environment of a run: the zone of the script, the zone of the account, and what
  \<^verbatim>\<open>new Date(s)\<close> makes of a string that is not a date-only string (the language leaves
  this to the engine; \<open>None\<close> is \<^verbatim>\<open>Invalid Date\<close>). The results below hold for every
  environment unless they name one.
\<close>

record js_env =
  scriptZone :: timezone
  accountZone :: timezone
  parseOther :: "string \<Rightarrow> int option"

definition parseDate :: "js_env \<Rightarrow> string \<Rightarrow> int option" where
  \<comment> \<open>\<^verbatim>\<open>new Date(s)\<close>: the date-only form \<^verbatim>\<open>YYYY-MM-DD\<close> is midnight UTC (a day beyond the
      end of the month, up to 31, is carried, as V8 does); any other string is left to
      the engine\<close>
  "parseDate env s =
     (case readYMD (CHR ''-'') s of
        Some (y, m, d) \<Rightarrow> Some (makeDate (days_from_civil y m 1 + d - 1) 0)
      | None \<Rightarrow> parseOther env s)"

definition legacyDate :: "timezone \<Rightarrow> string \<Rightarrow> int option" where
  \<comment> \<open>a fallback parser that reads \<^verbatim>\<open>YYYY/MM/DD\<close> as local midnight, as V8 does, and
      rejects every other string\<close>
  "legacyDate z s =
     (case readYMD (CHR ''/'') s of
        Some (y, m, d) \<Rightarrow> Some (newDate z y (m - 1) d)
      | None \<Rightarrow> None)"

definition jsEnv :: "timezone \<Rightarrow> timezone \<Rightarrow> js_env" where
  \<comment> \<open>the environment of a script zone and an account zone, with that fallback parser\<close>
  "jsEnv sz az = \<lparr>scriptZone = sz, accountZone = az, parseOther = legacyDate sz\<rparr>"

fun includes_str :: "string \<Rightarrow> string \<Rightarrow> bool" where
  \<comment> \<open>\<^verbatim>\<open>s.includes(t)\<close>\<close>
  "includes_str [] t = (t = [])"
| "includes_str (c # cs) t = (take (length t) (c # cs) = t \<or> includes_str cs t)"

subsection \<open>Numbers\<close>

definition pow2 :: "int \<Rightarrow> rat" where
  "pow2 e = (if 0 \<le> e then 2 ^ nat e else 1 / 2 ^ nat (- e))"

definition ilog2 :: "rat \<Rightarrow> int" where
  \<comment> \<open>the exponent \<open>k\<close> with \<open>2^k \<le> q < 2^(k+1)\<close>, for a positive \<open>q\<close>\<close>
  "ilog2 q =
     (case quotient_of q of (a, b) \<Rightarrow>
        (let k = bitlen a - bitlen b in if pow2 k \<le> q then k else k - 1))"

definition roundTiesToEven :: "rat \<Rightarrow> int" where
  \<comment> \<open>the nearest integer, a half going to the even neighbour\<close>
  "roundTiesToEven x =
     (let f = \<lfloor>x\<rfloor>; r = x - of_int f
      in if r < 1 / 2 then f else if 1 / 2 < r then f + 1 else if even f then f else f + 1)"

definition fl :: "rat \<Rightarrow> rat" where
  \<comment> \<open>the double nearest to \<open>q\<close>: a 53-bit significand times a power of two\<close>
  "fl q =
     (if q = 0 then 0
      else (let e = ilog2 \<bar>q\<bar> - 52
            in sgn q * of_int (roundTiesToEven (\<bar>q\<bar> / pow2 e)) * pow2 e))"

text \<open>
  Where the code divides by a value that may be zero, the result is a \<open>jsnum\<close>, so that
  \<^verbatim>\<open>NaN\<close> and the infinities are values of the model.
\<close>

datatype jsnum = Fin rat | NaN | PosInf | NegInf

definition jsdiv :: "rat \<Rightarrow> rat \<Rightarrow> jsnum" where
  \<comment> \<open>\<^verbatim>\<open>a / b\<close> on finite numbers\<close>
  "jsdiv a b =
     (if b = 0 then (if a = 0 then NaN else if 0 < a then PosInf else NegInf)
      else Fin (fl (a / b)))"

definition mathRound :: "rat \<Rightarrow> rat" where
  \<comment> \<open>\<^verbatim>\<open>Math.round\<close>: the nearest integer, halves towards \<open>+\<infinity>\<close>; the result is exact\<close>
  "mathRound q = of_int \<lfloor>q + 1 / 2\<rfloor>"

definition round2 :: "rat \<Rightarrow> rat" where
  \<comment> \<open>\<^verbatim>\<open>Math.round(q * 100) / 100\<close>\<close>
  "round2 q = fl (mathRound (fl (q * 100)) / 100)"

definition jsround2 :: "jsnum \<Rightarrow> jsnum" where
  \<comment> \<open>\<^verbatim>\<open>Math.round(x * 100) / 100\<close> on a possibly non-finite \<open>x\<close>\<close>
  "jsround2 x = (case x of Fin q \<Rightarrow> Fin (round2 q) | NaN \<Rightarrow> NaN | PosInf \<Rightarrow> PosInf | NegInf \<Rightarrow> NegInf)"

definition numberOrZero :: "rat option \<Rightarrow> rat" where
  \<comment> \<open>\<^verbatim>\<open>Number(x) || 0\<close>: the double nearest to the value the field denotes; \<open>None\<close> is a
      missing or non-numeric field\<close>
  "numberOrZero x = (case x of None \<Rightarrow> 0 | Some q \<Rightarrow> fl q)"

definition orElse :: "string \<Rightarrow> string \<Rightarrow> string" where
  \<comment> \<open>\<^verbatim>\<open>a || b\<close> on strings: the empty string is falsy\<close>
  "orElse a b = (if a \<noteq> [] then a else b)"

definition stringOrEmpty :: "string option \<Rightarrow> string" where
  \<comment> \<open>\<^verbatim>\<open>x || ''\<close>; \<open>None\<close> is \<^verbatim>\<open>undefined\<close>\<close>
  "stringOrEmpty x = (case x of None \<Rightarrow> [] | Some t \<Rightarrow> t)"

subsection \<open>Raw data rows\<close>

text \<open>One row of the \<^verbatim>\<open>Raw\<close> sheet as \<^verbatim>\<open>processData\<close> builds it (13 columns).\<close>

record raw_row =
  weekStart :: string
  weekEnd :: string
  campaignName :: string
  campaignType :: string
  isBrand :: bool
  impressions :: rat
  clicks :: rat
  cost :: rat
  costPerClick :: jsnum
  conversions :: rat
  conversionValue :: rat
  roas :: jsnum
  costPerConversion :: jsnum

subsection \<open>Matching a current-year week to a previous-year week\<close>

definition daysDiff :: "int \<Rightarrow> int \<Rightarrow> rat" where
  \<comment> \<open>\<^verbatim>\<open>Math.abs(weekDate.getTime() - exactPreviousDate.getTime()) / (1000 * 60 * 60 * 24)\<close>\<close>
  "daysDiff weekDate exactPreviousDate =
     fl (\<bar>fl (of_int weekDate - of_int exactPreviousDate)\<bar> / 86400000)"

record closest_state =
  closestWeek :: "string option"
  smallestDiff :: "rat option"
  closestWeekData :: "(nat \<times> rat) option"

definition closest_init :: closest_state where
  \<comment> \<open>\<^verbatim>\<open>closestWeek = null\<close>, \<^verbatim>\<open>smallestDiff = Infinity\<close> (\<open>None\<close>), \<^verbatim>\<open>closestWeekData = null\<close>\<close>
  "closest_init = \<lparr>closestWeek = None, smallestDiff = None, closestWeekData = None\<rparr>"

definition closest_step ::
  "js_env \<Rightarrow> int \<Rightarrow> raw_row list \<Rightarrow> string \<Rightarrow> closest_state \<Rightarrow> closest_state" where
  \<comment> \<open>the body of \<^verbatim>\<open>availablePreviousWeeks.forEach(weekStr => ...)\<close>; an unparsable
      \<open>weekStr\<close> gives a \<^verbatim>\<open>NaN\<close> difference, which fails both comparisons\<close>
  "closest_step env exactPreviousDate rawData weekStr st =
     (case parseDate env weekStr of
        None \<Rightarrow> st
      | Some weekDate \<Rightarrow>
          (if daysDiff weekDate exactPreviousDate \<le> 7 \<and>
              (case smallestDiff st of None \<Rightarrow> True
               | Some s \<Rightarrow> daysDiff weekDate exactPreviousDate < s)
           then (let weekData = filter (\<lambda>row. weekStart row = weekStr) rawData;
                     weekSpend = fold (\<lambda>row sum. fl (sum + cost row)) weekData 0
                 in \<lparr>closestWeek = Some weekStr,
                     smallestDiff = Some (daysDiff weekDate exactPreviousDate),
                     closestWeekData = Some (length weekData, weekSpend)\<rparr>)
           else st))"

definition findClosestPreviousYearWeek ::
  "js_env \<Rightarrow> string \<Rightarrow> string list \<Rightarrow> raw_row list \<Rightarrow> string option" where
  \<comment> \<open>\<open>None\<close> is \<^verbatim>\<open>null\<close>; an unparsable current week makes \<^verbatim>\<open>toISOString\<close> fail and the
      \<^verbatim>\<open>catch\<close> return \<^verbatim>\<open>null\<close>\<close>
  "findClosestPreviousYearWeek env currentYearWeekStart availablePreviousWeeks rawData =
     (case parseDate env currentYearWeekStart of
        None \<Rightarrow> None
      | Some currentDate \<Rightarrow>
          (let exactPreviousDate =
                 setFullYear (scriptZone env) currentDate
                   (getFullYear (scriptZone env) currentDate - 1);
               exactPreviousDateStr = formatDate (accountZone env) exactPreviousDate
           in if exactPreviousDateStr \<in> set availablePreviousWeeks then Some exactPreviousDateStr
              else closestWeek
                     (fold (closest_step env exactPreviousDate rawData) availablePreviousWeeks
                        closest_init)))"

subsection \<open>The weekly pairing loop\<close>

record week_pair =
  current :: string
  previous :: "string option"

definition pair_step ::
  "js_env \<Rightarrow> string list \<Rightarrow> raw_row list \<Rightarrow> string \<Rightarrow> week_pair list \<Rightarrow> week_pair list" where
  \<comment> \<open>the body of \<^verbatim>\<open>currentYearWeeks.forEach(currentWeek => ...)\<close>; \<^verbatim>\<open>if (previousWeek)\<close>
      is false for \<^verbatim>\<open>null\<close> and for the empty string\<close>
  "pair_step env previousYearWeeks rawData currentWeek weekPairs =
     (case findClosestPreviousYearWeek env currentWeek previousYearWeeks rawData of
        Some previousWeek \<Rightarrow>
          (if previousWeek \<noteq> []
           then weekPairs @ [\<lparr>current = currentWeek, previous = Some previousWeek\<rparr>]
           else weekPairs @ [\<lparr>current = currentWeek, previous = None\<rparr>])
      | None \<Rightarrow> weekPairs @ [\<lparr>current = currentWeek, previous = None\<rparr>])"

definition buildWeekPairs ::
  "js_env \<Rightarrow> string list \<Rightarrow> string list \<Rightarrow> raw_row list \<Rightarrow> week_pair list" where
  "buildWeekPairs env currentYearWeeks previousYearWeeks rawData =
     fold (pair_step env previousYearWeeks rawData) currentYearWeeks []"

definition allWeekDates :: "raw_row list \<Rightarrow> string list" where
  \<comment> \<open>\<^verbatim>\<open>[...new Set(rawData.map(row => row[0]))].sort()\<close>: the distinct week starts in
      the order of their characters\<close>
  "allWeekDates rawData = sort (remdups (map weekStart rawData))"

definition yearWeeks :: "int \<Rightarrow> raw_row list \<Rightarrow> string list" where
  \<comment> \<open>\<^verbatim>\<open>allWeekDates.filter(week => week.includes(year.toString()))\<close>\<close>
  "yearWeeks year rawData = filter (\<lambda>week. includes_str week (showNat (nat year))) (allWeekDates rawData)"

definition weeklyPairs :: "js_env \<Rightarrow> int \<Rightarrow> raw_row list \<Rightarrow> week_pair list" where
  \<comment> \<open>the pairing of \<^verbatim>\<open>createWeeklySummary\<close>, with \<open>currentYear\<close> the year of the run date\<close>
  "weeklyPairs env currentYear rawData =
     buildWeekPairs env (yearWeeks currentYear rawData) (yearWeeks (currentYear - 1) rawData) rawData"

subsection \<open>Processing the report rows\<close>

text \<open>
  A row of the report iterator. A field that is absent is \<open>None\<close>; a numeric field holds
  the value its text denotes, and is \<open>None\<close> as well when \<^verbatim>\<open>Number\<close> of it is \<^verbatim>\<open>NaN\<close>.
\<close>

record api_row =
  campaign_name :: "string option"
  campaign_advertisingChannelType :: "string option"
  segments_week :: "string option"
  metrics_impressions :: "rat option"
  metrics_clicks :: "rat option"
  metrics_costMicros :: "rat option"
  metrics_conversions :: "rat option"
  metrics_conversionsValue :: "rat option"

definition formatCampaignType :: "string \<Rightarrow> string" where
  "formatCampaignType t =
     (if t = ''SEARCH'' then ''Search''
      else if t = ''DISPLAY'' then ''Display''
      else if t = ''SHOPPING'' then ''Shopping''
      else if t = ''VIDEO'' then ''Video''
      else if t = ''PERFORMANCE_MAX'' then ''Performance Max''
      else orElse t ''Unknown'')"

definition weekEndOf :: "js_env \<Rightarrow> string \<Rightarrow> string" where
  \<comment> \<open>the week end, six days after the week start; formatting an invalid date fails and
      the \<^verbatim>\<open>catch\<close> falls back to the week start\<close>
  "weekEndOf env ws =
     (if ws \<noteq> [] then
        (case parseDate env ws of
           None \<Rightarrow> ws
         | Some startDate \<Rightarrow>
             formatDate (accountZone env)
               (setDate (scriptZone env) startDate (getDate (scriptZone env) startDate + 6)))
      else [])"

definition processRow :: "js_env \<Rightarrow> string list \<Rightarrow> api_row \<Rightarrow> raw_row" where
  "processRow env brandCampaigns row =
     (let name = stringOrEmpty (campaign_name row);
          ctype = formatCampaignType (stringOrEmpty (campaign_advertisingChannelType row));
          brand = (name \<in> set brandCampaigns);
          ws = stringOrEmpty (segments_week row);
          imp = numberOrZero (metrics_impressions row);
          clk = numberOrZero (metrics_clicks row);
          costMicros = numberOrZero (metrics_costMicros row);
          conv = numberOrZero (metrics_conversions row);
          cv0 = numberOrZero (metrics_conversionsValue row);
          we = weekEndOf env ws;
          cst = fl (mathRound (fl (fl (costMicros / 1000000) * 100)) / 100);
          cv = fl (mathRound (fl (cv0 * 100)) / 100);
          cpc = (if clk > 0 then jsround2 (jsdiv cst clk) else Fin 0);
          cpa = (if conv > 0 then jsround2 (jsdiv cst conv) else Fin 0);
          rs = (if cst > 0 then jsround2 (jsdiv cv cst) else Fin 0)
      in \<lparr>weekStart = ws, weekEnd = we, campaignName = name, campaignType = ctype,
          isBrand = brand, impressions = imp, clicks = clk, cost = cst, costPerClick = cpc,
          conversions = conv, conversionValue = cv, roas = rs, costPerConversion = cpa\<rparr>)"

record process_state =
  rows_out :: "raw_row list"
  rec_count :: nat
  brandCampaignCount :: nat

definition process_step ::
  "js_env \<Rightarrow> string list \<Rightarrow> api_row option \<Rightarrow> process_state \<Rightarrow> process_state" where
  \<comment> \<open>one turn of the \<^verbatim>\<open>while (rows.hasNext())\<close> loop; \<open>None\<close> is a row on which the field
      reads throw, after \<^verbatim>\<open>count++\<close>: the \<^verbatim>\<open>catch\<close> logs and the loop goes on\<close>
  "process_step env brandCampaigns r st =
     (case r of
        None \<Rightarrow> st\<lparr>rec_count := rec_count st + 1\<rparr>
      | Some row \<Rightarrow>
          (let newRow = processRow env brandCampaigns row
           in st\<lparr>rows_out := rows_out st @ [newRow],
                 rec_count := rec_count st + 1,
                 brandCampaignCount := brandCampaignCount st + (if isBrand newRow then 1 else 0)\<rparr>))"

definition process_loop :: "js_env \<Rightarrow> string list \<Rightarrow> api_row option list \<Rightarrow> process_state" where
  "process_loop env brandCampaigns rows =
     fold (process_step env brandCampaigns) rows
       \<lparr>rows_out = [], rec_count = 0, brandCampaignCount = 0\<rparr>"

definition processData :: "js_env \<Rightarrow> string list \<Rightarrow> api_row option list \<Rightarrow> raw_row list" where
  "processData env brandCampaigns rows = rows_out (process_loop env brandCampaigns rows)"

record processing_summary =
  totalRecords :: nat
  brandRecords :: nat
  processedRecords :: nat

definition processingSummary ::
  "js_env \<Rightarrow> string list \<Rightarrow> api_row option list \<Rightarrow> processing_summary" where
  \<comment> \<open>the data of the closing \<^verbatim>\<open>debugLog('Data processing summary', ...)\<close>, the only counts
      the function reports\<close>
  "processingSummary env brandCampaigns rows =
     (let st = process_loop env brandCampaigns rows
      in \<lparr>totalRecords = rec_count st, brandRecords = brandCampaignCount st,
          processedRecords = length (rows_out st)\<rparr>)"

subsection \<open>Locale-aware formula text\<close>

text \<open>
  The spreadsheet the builder runs against: its locale, the table of localized function
  names (\<^verbatim>\<open>formulaMap[formulaType]?.[locale]\<close>, the empty string where the table has no
  entry), the filter cells, and the lines written to the log so far. The table is a
  parameter: the results below hold for every table.
\<close>

record filter_state =
  selectedCampaignType :: string
  excludeBrandCampaigns :: bool
  hideYoyColumns :: bool
  hideWoWColumns :: bool

record sheet_env =
  spreadsheetLocale :: string
  formulaMap :: "string \<Rightarrow> string \<Rightarrow> string"
  filters :: filter_state
  logger :: "string list"

definition dq :: string where
  \<comment> \<open>the double quote\<close>
  "dq = [CHR 0x22]"

fun join :: "string \<Rightarrow> string list \<Rightarrow> string" where
  \<comment> \<open>\<^verbatim>\<open>xs.join(sep)\<close>\<close>
  "join sep [] = []"
| "join sep [x] = x"
| "join sep (x # y # ys) = x @ sep @ join sep (y # ys)"

definition debugLog :: "string \<Rightarrow> string \<Rightarrow> (sheet_env, unit) state" where
  \<comment> \<open>\<^verbatim>\<open>DEBUG_LOGGING_ENABLED\<close> is \<^verbatim>\<open>true\<close>; the payload is the logged data, empty for none\<close>
  "debugLog message payload =
     State (\<lambda>env. ((), env\<lparr>logger := logger env @
        [if payload \<noteq> [] then ''DEBUG: '' @ message @ '' - '' @ payload
         else ''DEBUG: '' @ message]\<rparr>))"

definition getLocaleAwareFormula :: "string \<Rightarrow> string list \<Rightarrow> (sheet_env, string) state" where
  "getLocaleAwareFormula formulaType args = do {
     debugLog ''Generating locale-aware formula'' (formulaType @ '' '' @ join '','' args);
     env \<leftarrow> State_Monad.get;
     let locale = orElse (spreadsheetLocale env) ''en_US'';
     debugLog ''Spreadsheet locale detected'' locale;
     let functionName = orElse (formulaMap env formulaType locale)
                          (orElse (formulaMap env formulaType ''en_US'') formulaType);
     debugLog ''Locale-aware function name'' (formulaType @ '' '' @ locale @ '' '' @ functionName);
     State_Monad.return
       (if formulaType = ''IF'' \<or> formulaType = ''SUMIFS'' \<or> formulaType = ''OFFSET''
        then ''='' @ functionName @ ''('' @ join '','' args @ '')''
        else ''='' @ formulaType @ ''('' @ join '','' args @ '')'')
   }"

definition createIfFormula :: "string \<Rightarrow> string \<Rightarrow> string \<Rightarrow> (sheet_env, string) state" where
  "createIfFormula condition trueValue falseValue =
     getLocaleAwareFormula ''IF'' [condition, trueValue, falseValue]"

definition criteriaArgs :: "string option \<Rightarrow> string option \<Rightarrow> string list" where
  \<comment> \<open>\<^verbatim>\<open>if (criteriaRange && criteria) args.push(criteriaRange, criteria)\<close>\<close>
  "criteriaArgs criteriaRange criteria =
     (case (criteriaRange, criteria) of
        (Some r, Some c) \<Rightarrow> if r \<noteq> [] \<and> c \<noteq> [] then [r, c] else []
      | _ \<Rightarrow> [])"

definition createSumifsFormula ::
  "string \<Rightarrow> string \<Rightarrow> string \<Rightarrow> string option \<Rightarrow> string option \<Rightarrow> string option \<Rightarrow> string option
     \<Rightarrow> (sheet_env, string) state" where
  "createSumifsFormula sumRange criteriaRange1 criteria1 criteriaRange2 criteria2 criteriaRange3 criteria3 =
     getLocaleAwareFormula ''SUMIFS''
       ([sumRange, criteriaRange1, criteria1] @ criteriaArgs criteriaRange2 criteria2
          @ criteriaArgs criteriaRange3 criteria3)"

definition createComplexSumifsFormula ::
  "string \<Rightarrow> string \<Rightarrow> string \<Rightarrow> bool \<Rightarrow> string \<Rightarrow> string \<Rightarrow> string \<Rightarrow> (sheet_env, string) state" where
  "createComplexSumifsFormula sumRange dateRange dateValue excludeBrand campaignTypeValue brandRange campaignTypeRange = do {
     excl1 \<leftarrow> createSumifsFormula sumRange dateRange dateValue (Some brandRange) (Some ''FALSE'') None None;
     excl2 \<leftarrow> createSumifsFormula sumRange dateRange dateValue (Some brandRange) (Some ''FALSE'')
               (Some campaignTypeRange) (Some ''B2'');
     innerIfExcludeBrand \<leftarrow> createIfFormula (''B2='' @ dq @ ''All'' @ dq) excl1 excl2;
     incl1 \<leftarrow> createSumifsFormula sumRange dateRange dateValue None None None None;
     incl2 \<leftarrow> createSumifsFormula sumRange dateRange dateValue (Some campaignTypeRange) (Some ''B2'') None None;
     innerIfIncludeAll \<leftarrow> createIfFormula (''B2='' @ dq @ ''All'' @ dq) incl1 incl2;
     createIfFormula (''B3='' @ dq @ ''Yes'' @ dq) innerIfExcludeBrand innerIfIncludeAll
   }"

subsection \<open>The formula rows of the weekly summary\<close>

datatype cell = NumberCell nat | TextCell string

definition sumifsOrZero :: "string \<Rightarrow> string option \<Rightarrow> string \<Rightarrow> (sheet_env, string) state" where
  \<comment> \<open>\<^verbatim>\<open>week ? createComplexSumifsFormula(col, 'Raw!A:A', quoted, true, 'All', 'Raw!E:E', 'Raw!D:D') : '0'\<close>\<close>
  "sumifsOrZero col week quoted =
     (case week of
        Some w \<Rightarrow> createComplexSumifsFormula col ''Raw!A:A'' quoted True ''All'' ''Raw!E:E'' ''Raw!D:D''
      | None \<Rightarrow> State_Monad.return ''0'')"

definition wowFormula :: "string \<Rightarrow> nat \<Rightarrow> (sheet_env, string) state" where
  \<comment> \<open>\<^verbatim>\<open>createIfFormula(`${rowNum}>11`, createIfFormula(`X${rowNum-1}>0`, `(X${rowNum}/X${rowNum-1})*100`, '0'), '0')\<close>;
      the inner call is evaluated first\<close>
  "wowFormula col rowNum = do {
     inner \<leftarrow> createIfFormula (col @ showNat (rowNum - 1) @ ''>0'')
                (''('' @ col @ showNat rowNum @ ''/'' @ col @ showNat (rowNum - 1) @ '')*100'') ''0'';
     createIfFormula (showNat rowNum @ ''>11'') inner ''0''
   }"

definition indexFormula :: "string \<Rightarrow> string \<Rightarrow> nat \<Rightarrow> (sheet_env, string) state" where
  \<comment> \<open>\<^verbatim>\<open>createIfFormula(`P${rowNum}>0`, `(C${rowNum}/P${rowNum})*100`, '0')\<close>\<close>
  "indexFormula cur prev rowNum =
     createIfFormula (prev @ showNat rowNum @ ''>0'')
       (''('' @ cur @ showNat rowNum @ ''/'' @ prev @ showNat rowNum @ '')*100'') ''0''"

definition ratioFormula :: "string \<Rightarrow> string \<Rightarrow> nat \<Rightarrow> (sheet_env, string) state" where
  \<comment> \<open>\<^verbatim>\<open>createIfFormula(`D${rowNum}>0`, `N${rowNum}/D${rowNum}`, '0')\<close>\<close>
  "ratioFormula num den rowNum =
     createIfFormula (den @ showNat rowNum @ ''>0'')
       (num @ showNat rowNum @ ''/'' @ den @ showNat rowNum) ''0''"

definition ratioOrZero :: "string option \<Rightarrow> string \<Rightarrow> string \<Rightarrow> nat \<Rightarrow> (sheet_env, string) state" where
  \<comment> \<open>\<^verbatim>\<open>week ? createIfFormula(`D${rowNum}>0`, `N${rowNum}/D${rowNum}`, '0') : '0'\<close>\<close>
  "ratioOrZero week num den rowNum =
     (case week of
        Some w \<Rightarrow> ratioFormula num den rowNum
      | None \<Rightarrow> State_Monad.return ''0'')"

definition formulaRow :: "nat \<Rightarrow> week_pair \<Rightarrow> (sheet_env, cell list) state" where
  \<comment> \<open>the body of \<^verbatim>\<open>for (let i = 0; i < maxWeeks; i++)\<close>, the calls in the order of the source\<close>
  "formulaRow i pair = do {
     let weekNumber = i + 1;
     let currentWeek = (if current pair \<noteq> [] then Some (current pair) else None);
     let previousWeek = (case previous pair of Some w \<Rightarrow> if w \<noteq> [] then Some w else None
                         | None \<Rightarrow> None);
     let rowNum = i + 11;
     let displayWeek = (case currentWeek of Some w \<Rightarrow> w | None \<Rightarrow> []);
     let weekStartQuoted = (case currentWeek of Some w \<Rightarrow> dq @ w @ dq | None \<Rightarrow> dq @ dq);
     let previousWeekQuoted = (case previousWeek of Some w \<Rightarrow> dq @ w @ dq | None \<Rightarrow> dq @ dq);
     clicksCurrentFormula \<leftarrow> sumifsOrZero ''Raw!G:G'' currentWeek weekStartQuoted;
     costCurrentFormula \<leftarrow> sumifsOrZero ''Raw!H:H'' currentWeek weekStartQuoted;
     conversionsCurrentFormula \<leftarrow> sumifsOrZero ''Raw!J:J'' currentWeek weekStartQuoted;
     conversionValueCurrentFormula \<leftarrow> sumifsOrZero ''Raw!K:K'' currentWeek weekStartQuoted;
     clicksPreviousFormula \<leftarrow> sumifsOrZero ''Raw!G:G'' previousWeek previousWeekQuoted;
     costPreviousFormula \<leftarrow> sumifsOrZero ''Raw!H:H'' previousWeek previousWeekQuoted;
     conversionsPreviousFormula \<leftarrow> sumifsOrZero ''Raw!J:J'' previousWeek previousWeekQuoted;
     conversionValuePreviousFormula \<leftarrow> sumifsOrZero ''Raw!K:K'' previousWeek previousWeekQuoted;
     costPerConvCurrentFormula \<leftarrow> ratioOrZero currentWeek ''K'' ''O'' rowNum;
     costPerConvPreviousFormula \<leftarrow> ratioOrZero previousWeek ''M'' ''Q'' rowNum;
     avgCPCCurrentFormula \<leftarrow> ratioFormula ''K'' ''C'' rowNum;
     avgCPCPreviousFormula \<leftarrow> ratioFormula ''L'' ''D'' rowNum;
     convValueCostCurrentFormula \<leftarrow> ratioFormula ''W'' ''K'' rowNum;
     convValueCostPreviousFormula \<leftarrow> ratioFormula ''Y'' ''M'' rowNum;
     clicksWoWFormula \<leftarrow> wowFormula ''C'' rowNum;
     cpcWoWFormula \<leftarrow> wowFormula ''G'' rowNum;
     costWoWFormula \<leftarrow> wowFormula ''K'' rowNum;
     conversionsWoWFormula \<leftarrow> wowFormula ''O'' rowNum;
     costPerConvWoWFormula \<leftarrow> wowFormula ''S'' rowNum;
     conversionValueWoWFormula \<leftarrow> wowFormula ''W'' rowNum;
     convValueCostWoWFormula \<leftarrow> wowFormula ''AA'' rowNum;
     clicksIndexFormula \<leftarrow> indexFormula ''C'' ''E'' rowNum;
     cpcIndexFormula \<leftarrow> indexFormula ''G'' ''I'' rowNum;
     costIndexFormula \<leftarrow> indexFormula ''K'' ''M'' rowNum;
     conversionsIndexFormula \<leftarrow> indexFormula ''O'' ''Q'' rowNum;
     costPerConvIndexFormula \<leftarrow> indexFormula ''S'' ''U'' rowNum;
     conversionValueIndexFormula \<leftarrow> indexFormula ''W'' ''Y'' rowNum;
     convValueCostIndexFormula \<leftarrow> indexFormula ''AA'' ''AC'' rowNum;
     State_Monad.return
       [NumberCell weekNumber, TextCell displayWeek,
        TextCell clicksCurrentFormula, TextCell clicksWoWFormula,
        TextCell clicksPreviousFormula, TextCell clicksIndexFormula,
        TextCell avgCPCCurrentFormula, TextCell cpcWoWFormula,
        TextCell avgCPCPreviousFormula, TextCell cpcIndexFormula,
        TextCell costCurrentFormula, TextCell costWoWFormula,
        TextCell costPreviousFormula, TextCell costIndexFormula,
        TextCell conversionsCurrentFormula, TextCell conversionsWoWFormula,
        TextCell conversionsPreviousFormula, TextCell conversionsIndexFormula,
        TextCell costPerConvCurrentFormula, TextCell costPerConvWoWFormula,
        TextCell costPerConvPreviousFormula, TextCell costPerConvIndexFormula,
        TextCell conversionValueCurrentFormula, TextCell conversionValueWoWFormula,
        TextCell conversionValuePreviousFormula, TextCell conversionValueIndexFormula,
        TextCell convValueCostCurrentFormula, TextCell convValueCostWoWFormula,
        TextCell convValueCostPreviousFormula, TextCell convValueCostIndexFormula]
   }"

fun formulaRows :: "nat \<Rightarrow> week_pair list \<Rightarrow> (sheet_env, cell list list) state" where
  "formulaRows i [] = State_Monad.return []"
| "formulaRows i (pair # rest) = do {
     formulaRow' \<leftarrow> formulaRow i pair;
     more \<leftarrow> formulaRows (Suc i) rest;
     State_Monad.return (formulaRow' # more)
   }"

definition formulaData :: "week_pair list \<Rightarrow> (sheet_env, cell list list) state" where
  \<comment> \<open>\<^verbatim>\<open>formulaData\<close> after the loop over \<^verbatim>\<open>i = 0 .. weekPairs.length - 1\<close>\<close>
  "formulaData weekPairs = formulaRows 0 weekPairs"

subsection \<open>Reading a ratio formula as an expression\<close>





definition functionNameOf :: "sheet_env \<Rightarrow> string \<Rightarrow> string" where
  \<comment> \<open>the \<^verbatim>\<open>functionName\<close> that \<^verbatim>\<open>getLocaleAwareFormula\<close> computes\<close>
  "functionNameOf env formulaType =
     orElse (formulaMap env formulaType (orElse (spreadsheetLocale env) ''en_US''))
       (orElse (formulaMap env formulaType ''en_US'') formulaType)"






subsection \<open>The monthly summary\<close>

text \<open>One row of the monthly \<^verbatim>\<open>Raw\<close> sheet (14 columns).\<close>

record monthly_row =
  monthStart :: string
  monthEnd :: string
  m_campaignName :: string
  m_campaignType :: string
  m_isBrand :: bool
  m_impressions :: rat
  m_clicks :: rat
  m_cost :: rat
  m_costPerClick :: jsnum
  m_conversions :: rat
  m_costPerConversion :: jsnum
  m_conversionValue :: rat
  m_conversionValueByTime :: rat
  m_roasTime :: jsnum

definition slice0 :: "int \<Rightarrow> 'a list \<Rightarrow> 'a list" where
  \<comment> \<open>\<^verbatim>\<open>xs.slice(0, n)\<close>; a negative \<open>n\<close> counts from the end\<close>
  "slice0 n xs = (if 0 \<le> n then take (nat n) xs else take (length xs - nat (- n)) xs)"

definition itemOrNull :: "string list \<Rightarrow> nat \<Rightarrow> string option" where
  \<comment> \<open>\<^verbatim>\<open>xs[i] || null\<close>: out of range reads \<^verbatim>\<open>undefined\<close>\<close>
  "itemOrNull xs i = (if i < length xs \<and> xs ! i \<noteq> [] then Some (xs ! i) else None)"

definition allMonthDates :: "monthly_row list \<Rightarrow> string list" where
  "allMonthDates rawData = sort (remdups (map monthStart rawData))"

definition yearMonths :: "int \<Rightarrow> monthly_row list \<Rightarrow> string list" where
  \<comment> \<open>\<^verbatim>\<open>allMonthDates.filter(month => month.includes(year.toString()))\<close>\<close>
  "yearMonths y rawData = filter (\<lambda>month. includes_str month (showNat (nat y))) (allMonthDates rawData)"

definition currentMonthNumber :: "js_env \<Rightarrow> int \<Rightarrow> int" where
  \<comment> \<open>\<^verbatim>\<open>new Date(today.getFullYear(), today.getMonth(), 0).getMonth() + 1\<close>, with \<open>now\<close> the
      time value of \<^verbatim>\<open>new Date()\<close>\<close>
  "currentMonthNumber env now =
     (let lastCompleteMonth =
            newDate (scriptZone env) (getFullYear (scriptZone env) now)
              (getMonth (scriptZone env) now) 0
      in getMonth (scriptZone env) lastCompleteMonth + 1)"

definition previousYearMonths :: "js_env \<Rightarrow> int \<Rightarrow> monthly_row list \<Rightarrow> string list" where
  "previousYearMonths env now rawData =
     slice0 (currentMonthNumber env now) (yearMonths (getFullYear (scriptZone env) now - 1) rawData)"

definition limitedCurrentYearMonths :: "js_env \<Rightarrow> int \<Rightarrow> monthly_row list \<Rightarrow> string list" where
  "limitedCurrentYearMonths env now rawData =
     slice0 (currentMonthNumber env now) (yearMonths (getFullYear (scriptZone env) now) rawData)"

record month_pair =
  monthNumber :: nat
  currentMonth :: "string option"
  previousMonth :: "string option"

definition monthlyPairs :: "js_env \<Rightarrow> int \<Rightarrow> monthly_row list \<Rightarrow> month_pair list" where
  \<comment> \<open>\<open>monthNumber\<close>, \<open>currentMonth\<close> and \<open>previousMonth\<close> of each turn of
      \<^verbatim>\<open>for (let i = 0; i < maxMonths; i++)\<close>\<close>
  "monthlyPairs env now rawData =
     (let maxMonths = length (limitedCurrentYearMonths env now rawData)
      in map (\<lambda>i. \<lparr>monthNumber = i + 1,
                      currentMonth = itemOrNull (limitedCurrentYearMonths env now rawData) i,
                      previousMonth = itemOrNull (previousYearMonths env now rawData) i\<rparr>)
           [0..<maxMonths])"

subsection \<open>The date ranges of the report queries\<close>

record date_range =
  range_start :: string
  range_end :: string

definition lastCompleteSunday :: "js_env \<Rightarrow> int \<Rightarrow> int" where
  \<comment> \<open>\<open>endDate\<close> of the weekly \<^verbatim>\<open>getDateRange\<close>\<close>
  "lastCompleteSunday env now =
     (let dayOfWeek = getDay (scriptZone env) now
      in if dayOfWeek = 0 then setDate (scriptZone env) now (getDate (scriptZone env) now - 7)
         else setDate (scriptZone env) now (getDate (scriptZone env) now - dayOfWeek))"

definition getDateRange :: "js_env \<Rightarrow> int \<Rightarrow> date_range" where
  \<comment> \<open>from 1 January of last year to the last complete Sunday; nothing in the body can
      throw here, so the fallback of the \<^verbatim>\<open>catch\<close> is never taken\<close>
  "getDateRange env now =
     \<lparr>range_start = formatDate (accountZone env)
                       (newDate (scriptZone env) (getFullYear (scriptZone env) now - 1) 0 1),
      range_end = formatDate (accountZone env) (lastCompleteSunday env now)\<rparr>"



definition accountDay :: "js_env \<Rightarrow> int \<Rightarrow> int" where
  \<comment> \<open>the day number, in the zone of the account, of an instant\<close>
  "accountDay env t = dayOf (localTime (accountZone env) t)"




subsection \<open>Sample data\<close>

definition utcEnv :: js_env where
  \<comment> \<open>script and account in UTC\<close>
  "utcEnv = jsEnv utc utc"


definition sampleRow :: "string \<Rightarrow> rat \<Rightarrow> rat \<Rightarrow> api_row" where
  \<comment> \<open>a report row of one campaign for the given week, cost in micros and clicks\<close>
  "sampleRow week costMicros clk =
     \<lparr>campaign_name = Some ''Campaign'', campaign_advertisingChannelType = Some ''SEARCH'',
      segments_week = Some week, metrics_impressions = Some 100, metrics_clicks = Some clk,
      metrics_costMicros = Some costMicros, metrics_conversions = Some 0,
      metrics_conversionsValue = Some 0\<rparr>"

definition sampleMonthRow :: "string \<Rightarrow> monthly_row" where
  \<comment> \<open>a row of the monthly raw data for the given month\<close>
  "sampleMonthRow month =
     \<lparr>monthStart = month, monthEnd = month, m_campaignName = ''Campaign'',
      m_campaignType = ''Search'', m_isBrand = False, m_impressions = 100, m_clicks = 10,
      m_cost = 1, m_costPerClick = Fin (fl (1 / 10)), m_conversions = 0,
      m_costPerConversion = Fin 0, m_conversionValue = 0, m_conversionValueByTime = 0,
      m_roasTime = Fin 0\<rparr>"

subsection \<open>Invariants used in the proofs\<close>

definition era_N :: "int \<Rightarrow> int" where
  \<comment> \<open>the numerator of the year-of-era quotient in \<open>civil_from_days\<close>\<close>
  "era_N doe = doe - doe div 1460 + doe div 36524 - doe div 146096"

definition year_start :: "int \<Rightarrow> int" where
  \<comment> \<open>the day of the era on which year \<open>Y\<close> of the era starts (years start in March)\<close>
  "year_start Y = 365 * Y + Y div 4 - Y div 100"



definition same_sheet :: "sheet_env \<Rightarrow> sheet_env \<Rightarrow> bool" where
  \<comment> \<open>two spreadsheet states that a formula builder cannot tell apart\<close>
  "same_sheet a b \<longleftrightarrow> spreadsheetLocale a = spreadsheetLocale b \<and> formulaMap a = formulaMap b"

definition reads_only :: "(sheet_env, 'a) state \<Rightarrow> bool" where
  \<comment> \<open>the computation leaves locale and name table alone, and its result depends on
      nothing else\<close>
  "reads_only m \<longleftrightarrow>
     (\<forall>s. same_sheet s (snd (run_state m s))) \<and>
     (\<forall>s t. same_sheet s t \<longrightarrow> fst (run_state m s) = fst (run_state m t))"

section \<open>Calendar arithmetic\<close>

text \<open>
  The conversion from a day count to year, month and day is inverted by the conversion
  back, and the first days of the months are in calendar order.
\<close>

lemma div_succ_le: "0 < d \<Longrightarrow> (x + 1) div d \<le> x div d + (1::int)"
proof -
  assume d: "0 < d"
  then have "(x + 1) div d \<le> (x + d) div d" by (intro zdiv_mono1) auto
  also have "\<dots> = x div d + 1" using d div_add_self2 [of d x] by simp
  finally show ?thesis .
qed

lemma era_N_step:
  assumes "0 \<le> x" "x < 146096"
  shows "era_N x \<le> era_N (x + 1)"
proof (cases "x + 1 = 146096")
  case True
  then have "x = 146095" by simp
  then show ?thesis by (simp add: era_N_def)
next
  case False
  with assms have a: "(x + 1) div 146096 = 0" "x div 146096 = 0" by simp_all
  have b: "(x + 1) div 1460 \<le> x div 1460 + 1" by (rule div_succ_le) simp
  have c: "x div 36524 \<le> (x + 1) div 36524" by (intro zdiv_mono1) auto
  show ?thesis unfolding era_N_def a using b c by linarith
qed

lemma era_N_mono:
  assumes "0 \<le> x" "x \<le> y" "y \<le> 146096"
  shows "era_N x \<le> era_N y"
proof -
  have "\<And>k. k \<le> nat (y - x) \<Longrightarrow> era_N x \<le> era_N (x + int k)"
  proof -
    fix k show "k \<le> nat (y - x) \<Longrightarrow> era_N x \<le> era_N (x + int k)"
    proof (induction k)
      case 0
      show ?case by simp
    next
      case (Suc k)
      then have "era_N x \<le> era_N (x + int k)" by simp
      also have "\<dots> \<le> era_N (x + int k + 1)"
        using Suc.prems assms by (intro era_N_step) linarith+
      finally show ?case by (simp add: algebra_simps)
    qed
  qed
  from this [of "nat (y - x)"] assms show ?thesis by simp
qed

lemma year_start_checks:
  "\<forall>Y \<in> set [0..399]. 365 * Y \<le> era_N (year_start Y) \<and> era_N (year_start (Y + 1) - 1) < 365 * (Y + 1)"
  by code_simp

lemma year_start_le: "0 \<le> Y \<Longrightarrow> Y \<le> 399 \<Longrightarrow> 0 \<le> year_start Y \<and> year_start Y \<le> 145731"
  unfolding year_start_def by linarith

lemma div_succ_ge: "0 < d \<Longrightarrow> x div d \<le> (x + 1) div (d::int)"
  by (intro zdiv_mono1) auto


lemma year_start_next: "year_start (Y + 1) \<le> year_start Y + 366"
  unfolding year_start_def
  using div_succ_le [of 4 Y, simplified] div_succ_ge [of 100 Y, simplified]
  by (simp add: algebra_simps)


lemma era_N_top: "era_N 146096 = 145999"
  by (simp add: era_N_def)

lemma era_N_zero: "era_N 0 = 0"
  by (simp add: era_N_def)

lemma yoe_bounds:
  assumes "0 \<le> doe" "doe \<le> 146096"
  shows "0 \<le> era_N doe div 365 \<and> era_N doe div 365 \<le> 399"
proof -
  have "era_N 0 \<le> era_N doe" using assms by (intro era_N_mono) auto
  then have lo: "0 \<le> era_N doe" by (simp add: era_N_zero)
  have "era_N doe \<le> era_N 146096" using assms by (intro era_N_mono) auto
  then have hi: "era_N doe \<le> 145999" by (simp add: era_N_top)
  from lo hi show ?thesis by linarith
qed

lemma doy_bounds:
  assumes "0 \<le> doe" "doe \<le> 146096"
  shows "year_start (era_N doe div 365) \<le> doe \<and> doe \<le> year_start (era_N doe div 365) + 365"
proof -
  define Y where "Y = era_N doe div 365"
  have Y: "0 \<le> Y" "Y \<le> 399" using yoe_bounds [OF assms] by (simp_all add: Y_def)
  have N: "365 * Y \<le> era_N doe" "era_N doe < 365 * Y + 365" unfolding Y_def by linarith+
  have lower: "year_start Y \<le> doe"
  proof (rule ccontr)
    assume "\<not> year_start Y \<le> doe"
    then have lt: "doe \<le> year_start Y - 1" by simp
    have "Y \<noteq> 0" using lt assms by (auto simp: year_start_def)
    with Y have Y1: "0 \<le> Y - 1" "Y - 1 \<le> 399" by simp_all
    then have "Y - 1 \<in> set [0..399]" by simp
    with year_start_checks have "era_N (year_start (Y - 1 + 1) - 1) < 365 * (Y - 1 + 1)"
      by blast
    then have c: "era_N (year_start Y - 1) < 365 * Y" by simp
    have "year_start Y - 1 \<le> 146096" using year_start_le [OF Y] by linarith
    with assms lt have "era_N doe \<le> era_N (year_start Y - 1)" by (intro era_N_mono) auto
    with c N show False by linarith
  qed
  have upper: "doe \<le> year_start Y + 365"
  proof (rule ccontr)
    assume "\<not> doe \<le> year_start Y + 365"
    then have gt: "year_start Y + 366 \<le> doe" by simp
    show False
    proof (cases "Y = 399")
      case True
      then have "year_start Y = 145731" by (simp add: year_start_def)
      with gt assms show False by simp
    next
      case False
      with Y have Y1: "0 \<le> Y + 1" "Y + 1 \<le> 399" by simp_all
      then have "Y + 1 \<in> set [0..399]" by simp
      with year_start_checks have "365 * (Y + 1) \<le> era_N (year_start (Y + 1))" by blast
      then have c: "365 * Y + 365 \<le> era_N (year_start (Y + 1))" by (simp add: algebra_simps)
      have "year_start (Y + 1) \<le> doe" using year_start_next [of Y] gt by linarith
      moreover have "0 \<le> year_start (Y + 1)" using year_start_le [OF Y1] by simp
      ultimately have "era_N (year_start (Y + 1)) \<le> era_N doe"
        using assms by (intro era_N_mono) auto
      with c N show False by linarith
    qed
  qed
  from lower upper show ?thesis unfolding Y_def by simp
qed

lemma month_part_bounds:
  assumes "0 \<le> doy" "doy \<le> 365"
  shows "0 \<le> (5 * doy + 2) div 153 \<and> (5 * doy + 2) div 153 \<le> (11::int)"
    and "1 \<le> doy - (153 * ((5 * doy + 2) div 153) + 2) div 5 + 1"
    and "doy - (153 * ((5 * doy + 2) div 153) + 2) div 5 + 1 \<le> (31::int)"
proof -
  define mp where "mp = (5 * doy + 2) div 153"
  define q where "q = (153 * mp + 2) div 5"
  have mp: "153 * mp \<le> 5 * doy + 2" "5 * doy + 2 < 153 * mp + 153"
    unfolding mp_def by linarith+
  have q: "5 * q \<le> 153 * mp + 2" "153 * mp + 2 < 5 * q + 5"
    unfolding q_def by linarith+
  show "0 \<le> (5 * doy + 2) div 153 \<and> (5 * doy + 2) div 153 \<le> (11::int)"
    using mp assms unfolding mp_def [symmetric] by linarith
  show "1 \<le> doy - (153 * ((5 * doy + 2) div 153) + 2) div 5 + 1"
    using mp q unfolding mp_def [symmetric] q_def [symmetric] by linarith
  show "doy - (153 * ((5 * doy + 2) div 153) + 2) div 5 + 1 \<le> (31::int)"
    using mp q unfolding mp_def [symmetric] q_def [symmetric] by linarith
qed

lemma civil_round_trip:
  assumes "civil_from_days t = (y, m, d)"
  shows "1 \<le> m \<and> m \<le> 12 \<and> 1 \<le> d \<and> d \<le> 31 \<and> days_from_civil y m d = t"
proof -
  define z where "z = t + 719468"
  define era where "era = z div 146097"
  define doe where "doe = z - era * 146097"
  define yoe where "yoe = era_N doe div 365"
  define doy where "doy = doe - year_start yoe"
  define mp where "mp = (5 * doy + 2) div 153"
  have "doe = z mod 146097"
    unfolding doe_def era_def by (simp add: minus_div_mult_eq_mod)
  then have doe: "0 \<le> doe" "doe \<le> 146096" by simp_all
  have yoe: "0 \<le> yoe" "yoe \<le> 399"
    using yoe_bounds [OF doe] by (simp_all add: yoe_def)
  have doy: "0 \<le> doy" "doy \<le> 365"
    using doy_bounds [OF doe] by (simp_all add: doy_def yoe_def)
  note mb = month_part_bounds [OF doy]
  have mp: "0 \<le> mp" "mp \<le> 11" using mb(1) by (simp_all add: mp_def)
  have civ: "civil_from_days t =
      (if (if mp < 10 then mp + 3 else mp - 9) \<le> 2 then yoe + era * 400 + 1 else yoe + era * 400,
       if mp < 10 then mp + 3 else mp - 9,
       doy - (153 * mp + 2) div 5 + 1)"
    unfolding mp_def doy_def yoe_def doe_def era_def z_def civil_from_days_def Let_def
      era_N_def year_start_def
    by (rule refl)
  have "(y, m, d) =
      (if (if mp < 10 then mp + 3 else mp - 9) \<le> 2 then yoe + era * 400 + 1 else yoe + era * 400,
       if mp < 10 then mp + 3 else mp - 9,
       doy - (153 * mp + 2) div 5 + 1)"
    using assms civ by (simp only:)
  then have y0: "y = (if (if mp < 10 then mp + 3 else mp - 9) \<le> 2
        then yoe + era * 400 + 1 else yoe + era * 400)"
    and m: "m = (if mp < 10 then mp + 3 else mp - 9)"
    and d: "d = doy - (153 * mp + 2) div 5 + 1"
    by (simp_all only: prod.inject)
  have y: "y = (if m \<le> 2 then yoe + era * 400 + 1 else yoe + era * 400)"
    using y0 unfolding m .
  have m_bounds: "1 \<le> m" "m \<le> 12" using mp m by (simp_all split: if_splits)
  have d_bounds: "1 \<le> d" "d \<le> 31" using mb(2,3) by (simp_all add: d mp_def)
  have y': "(if m \<le> 2 then y - 1 else y) = yoe + era * 400" using y by simp
  have e': "(yoe + era * 400) div 400 = era"
    using yoe div_pos_pos_trivial [of yoe 400] by simp
  have mp': "(if m > 2 then m - 3 else m + 9) = mp" using m mp by (simp split: if_splits)
  have "days_from_civil y m d = era * 146097 + (year_start yoe + doy) - 719468"
    by (simp add: days_from_civil_def Let_def y' e' mp' d year_start_def)
  also have "\<dots> = t" by (simp add: doy_def doe_def z_def)
  finally have "days_from_civil y m d = t" .
  with m_bounds d_bounds show ?thesis by simp
qed







section \<open>Rounding to a double\<close>

text \<open>
  The exponent found for a positive number brackets it between two powers of two, so the
  significand has 53 bits. Rounding is monotone, exact on the integers below \<open>2^53\<close>,
  and off by at most one part in \<open>2^53\<close>.
\<close>

lemma pow2_powi: "pow2 e = 2 powi e"
  by (simp add: pow2_def power_int_def power_one_over inverse_eq_divide)

lemma pow2_pos: "0 < pow2 e"
  by (simp add: pow2_powi zero_less_power_int)

lemma pow2_add: "pow2 (a + b) = pow2 a * pow2 b"
  by (simp add: pow2_powi power_int_add)

lemma pow2_diff: "pow2 (a - b) = pow2 a / pow2 b"
  by (simp add: pow2_powi power_int_diff)


lemma pow2_strict_mono: "a < b \<Longrightarrow> pow2 a < pow2 b"
  by (simp add: pow2_powi power_int_strict_increasing)

lemma pow2_nat: "0 \<le> e \<Longrightarrow> pow2 e = 2 ^ nat e"
  by (simp add: pow2_def)

lemma ilog2_bounds:
  assumes "0 < q"
  shows "pow2 (ilog2 q) \<le> q \<and> q < pow2 (ilog2 q + 1)"
proof -
  obtain a b where ab: "quotient_of q = (a, b)" by (cases "quotient_of q")
  have b: "0 < b" using quotient_of_denom_pos [OF ab] .
  have q: "q = of_int a / of_int b" using quotient_of_div [OF ab] .
  have a: "0 < a" using assms b q by (simp add: zero_less_divide_iff)
  define la where "la = bitlen a"
  define lb where "lb = bitlen b"
  have la1: "1 \<le> la" using a bitlen_eq_zero_iff [of a] bitlen_nonneg [of a] by (simp add: la_def)
  have lb1: "1 \<le> lb" using b bitlen_eq_zero_iff [of b] bitlen_nonneg [of b] by (simp add: lb_def)
  have ia: "2 ^ nat (la - 1) \<le> a" "a < 2 ^ nat la"
    using bitlen_bounds [OF a] by (simp_all add: la_def)
  have ib: "2 ^ nat (lb - 1) \<le> b" "b < 2 ^ nat lb"
    using bitlen_bounds [OF b] by (simp_all add: lb_def)
  have A1: "pow2 (la - 1) \<le> of_int a"
  proof -
    have "(of_int (2 ^ nat (la - 1)) :: rat) \<le> of_int a" using ia(1) by (simp only: of_int_le_iff)
    then show ?thesis using la1 by (simp add: pow2_nat)
  qed
  have A2: "of_int a < pow2 la"
  proof -
    have "(of_int a :: rat) < of_int (2 ^ nat la)" using ia(2) by (simp only: of_int_less_iff)
    then show ?thesis using la1 by (simp add: pow2_nat)
  qed
  have B1: "pow2 (lb - 1) \<le> of_int b"
  proof -
    have "(of_int (2 ^ nat (lb - 1)) :: rat) \<le> of_int b" using ib(1) by (simp only: of_int_le_iff)
    then show ?thesis using lb1 by (simp add: pow2_nat)
  qed
  have B2: "of_int b < pow2 lb"
  proof -
    have "(of_int b :: rat) < of_int (2 ^ nat lb)" using ib(2) by (simp only: of_int_less_iff)
    then show ?thesis using lb1 by (simp add: pow2_nat)
  qed
  have bq: "(0::rat) < of_int b" using b by simp
  have up: "q < pow2 (la - lb + 1)"
  proof -
    have "q < pow2 la / of_int b" unfolding q using A2 bq by (simp add: divide_strict_right_mono)
    also have "\<dots> \<le> pow2 la / pow2 (lb - 1)"
      using B1 pow2_pos [of "lb - 1"] pow2_pos [of la] by (simp add: frac_le)
    also have "\<dots> = pow2 (la - (lb - 1))" by (simp add: pow2_diff)
    finally show ?thesis by (simp add: algebra_simps)
  qed
  have lo: "pow2 (la - lb - 1) < q"
  proof -
    have "pow2 (la - lb - 1) = pow2 (la - 1) / pow2 lb"
      using pow2_diff [of "la - 1" lb] by (simp add: algebra_simps)
    also have "\<dots> < pow2 (la - 1) / of_int b"
      using B2 bq pow2_pos [of "la - 1"] by (simp add: divide_strict_left_mono)
    also have "\<dots> \<le> q" unfolding q using A1 bq by (simp add: divide_right_mono)
    finally show ?thesis .
  qed
  show ?thesis
  proof (cases "pow2 (la - lb) \<le> q")
    case True
    then have "ilog2 q = la - lb" by (simp add: ilog2_def ab Let_def la_def lb_def)
    with True up show ?thesis by simp
  next
    case False
    then have "ilog2 q = la - lb - 1" by (simp add: ilog2_def ab Let_def la_def lb_def)
    with False lo show ?thesis by simp
  qed
qed



lemma rne_near: "\<bar>of_int (roundTiesToEven x) - x\<bar> \<le> 1 / 2"
proof -
  have "of_int \<lfloor>x\<rfloor> \<le> x" "x < of_int \<lfloor>x\<rfloor> + 1" by linarith+
  then show ?thesis by (auto simp: roundTiesToEven_def Let_def)
qed



lemma fl_zero: "fl 0 = 0"
  by (simp add: fl_def)

lemma fl_pos_eq:
  "0 < q \<Longrightarrow> fl q = of_int (roundTiesToEven (q / pow2 (ilog2 q - 52))) * pow2 (ilog2 q - 52)"
  by (simp add: fl_def Let_def)

lemma fl_minus: "fl (- q) = - fl q"
  by (simp add: fl_def Let_def sgn_minus)

lemma scaled_bounds:
  assumes "0 < q"
  shows "2 ^ 52 \<le> q / pow2 (ilog2 q - 52) \<and> q / pow2 (ilog2 q - 52) < 2 ^ 53"
proof -
  define e where "e = ilog2 q - 52"
  have p: "0 < pow2 e" by (rule pow2_pos)
  have ee: "e + 52 = ilog2 q" "e + 53 = ilog2 q + 1" by (simp_all add: e_def)
  have "pow2 (e + 52) \<le> q" "q < pow2 (e + 53)"
    unfolding ee using ilog2_bounds [OF assms] by simp_all
  then have "pow2 e * pow2 52 \<le> q" "q < pow2 e * pow2 53" by (simp_all add: pow2_add)
  then have "pow2 52 \<le> q / pow2 e" "q / pow2 e < pow2 53"
    using p by (simp_all add: pos_le_divide_eq pos_divide_less_eq mult.commute)
  then show ?thesis unfolding e_def by (simp add: pow2_def)
qed








lemma fl_error_pos:
  assumes "0 < q"
  shows "\<bar>fl q - q\<bar> \<le> q / 2 ^ 53"
proof -
  define e where "e = ilog2 q - 52"
  define x where "x = q / pow2 e"
  have p: "0 < pow2 e" by (rule pow2_pos)
  have q: "q = x * pow2 e" using p by (simp add: x_def)
  have x: "2 ^ 52 \<le> x" using scaled_bounds [OF assms] by (simp add: x_def e_def)
  have f: "fl q = of_int (roundTiesToEven x) * pow2 e"
    using fl_pos_eq [OF assms] by (simp add: x_def e_def)
  have "\<bar>fl q - q\<bar> = \<bar>of_int (roundTiesToEven x) - x\<bar> * pow2 e"
    unfolding f using p by (subst q) (simp add: left_diff_distrib [symmetric] abs_mult)
  also have "\<dots> \<le> (1 / 2) * pow2 e" using rne_near [of x] p by (simp add: mult_right_mono)
  also have "\<dots> \<le> (x / 2 ^ 53) * pow2 e"
  proof -
    have "(1::rat) / 2 \<le> x / 2 ^ 53" using x by simp
    then show ?thesis using p by (simp add: mult_right_mono)
  qed
  also have "\<dots> = q / 2 ^ 53" by (subst q) simp
  finally show ?thesis .
qed

lemma fl_error: "\<bar>fl q - q\<bar> \<le> \<bar>q\<bar> / 2 ^ 53"
proof -
  consider "0 < q" | "q = 0" | "0 < - q" by linarith
  then show ?thesis
  proof cases
    case 1
    then show ?thesis using fl_error_pos [of q] by simp
  next
    case 2
    then show ?thesis by (simp add: fl_zero)
  next
    case 3
    have "\<bar>fl q - q\<bar> = \<bar>fl (- q) - (- q)\<bar>" by (simp add: fl_minus)
    also have "\<dots> \<le> (- q) / 2 ^ 53" using 3 by (rule fl_error_pos)
    finally show ?thesis using 3 by simp
  qed
qed




subsection \<open>The distance in days\<close>







section \<open>Dates as the scripts use them\<close>

lemma civil_cases:
  obtains y m d where "civil_from_days t = (y, m, d)" "1 \<le> m" "m \<le> 12" "1 \<le> d" "d \<le> 31"
    "days_from_civil y m d = t"
proof -
  obtain y m d where c: "civil_from_days t = (y, m, d)" by (cases "civil_from_days t")
  from civil_round_trip [OF c] c that [of y m d] show ?thesis by blast
qed









lemma monthOfDay_range: "0 \<le> monthOfDay t \<and> monthOfDay t \<le> 11"
proof -
  obtain y m d where c: "civil_from_days t = (y, m, d)" "1 \<le> m" "m \<le> 12"
    by (rule civil_cases)
  then show ?thesis by (simp add: monthOfDay_def)
qed

lemma currentMonthNumber_range:
  "1 \<le> currentMonthNumber env now \<and> currentMonthNumber env now \<le> 12"
  using monthOfDay_range by (simp add: currentMonthNumber_def Let_def getMonth_def)



subsection \<open>Time values and local days\<close>
















section \<open>Properties of the weekly pairing\<close>

subsection \<open>The nearest-week search\<close>

lemma closest_step_cases:
  "closest_step env e raw w st = st \<or>
   (\<exists>wd. parseDate env w = Some wd \<and> daysDiff wd e \<le> 7 \<and>
      closestWeek (closest_step env e raw w st) = Some w \<and>
      smallestDiff (closest_step env e raw w st) = Some (daysDiff wd e))"
  by (auto simp: closest_step_def Let_def split: option.splits)

lemma closest_fold_sound:
  "(\<forall>w. closestWeek st = Some w \<longrightarrow> P w) \<Longrightarrow>
   (\<forall>w wd. w \<in> set ws \<and> parseDate env w = Some wd \<and> daysDiff wd e \<le> 7 \<longrightarrow> P w) \<Longrightarrow>
   closestWeek (fold (closest_step env e raw) ws st) = Some w \<Longrightarrow> P w"
proof (induction ws arbitrary: st)
  case Nil
  then show ?case by simp
next
  case (Cons a ws)
  have "\<forall>w. closestWeek (closest_step env e raw a st) = Some w \<longrightarrow> P w"
    using closest_step_cases [of env e raw a st] Cons.prems(1,2) by auto
  moreover have "\<forall>w wd. w \<in> set ws \<and> parseDate env w = Some wd \<and> daysDiff wd e \<le> 7 \<longrightarrow> P w"
    using Cons.prems(2) by auto
  ultimately show ?case
    using Cons.IH [of "closest_step env e raw a st"] Cons.prems(3) by simp
qed









subsection \<open>The pairing loop\<close>

lemma pair_fold_map:
  "fold (pair_step env prev raw) cur acc =
     acc @ map (\<lambda>c. \<lparr>current = c,
                      previous = (case findClosestPreviousYearWeek env c prev raw of
                                    None \<Rightarrow> None
                                  | Some p \<Rightarrow> if p \<noteq> [] then Some p else None)\<rparr>) cur"
  by (induction cur arbitrary: acc) (auto simp: pair_step_def split: option.splits)

lemma buildWeekPairs_map:
  "buildWeekPairs env cur prev raw =
     map (\<lambda>c. \<lparr>current = c,
               previous = (case findClosestPreviousYearWeek env c prev raw of
                             None \<Rightarrow> None
                           | Some p \<Rightarrow> if p \<noteq> [] then Some p else None)\<rparr>) cur"
  by (simp add: buildWeekPairs_def pair_fold_map)

lemma findClosest_member:
  assumes "findClosestPreviousYearWeek env c prev raw = Some w"
  shows "w \<in> set prev"
proof (cases "parseDate env c")
  case None
  with assms show ?thesis by (simp add: findClosestPreviousYearWeek_def)
next
  case (Some d)
  let ?e = "setFullYear (scriptZone env) d (getFullYear (scriptZone env) d - 1)"
  show ?thesis
  proof (cases "formatDate (accountZone env) ?e \<in> set prev")
    case True
    with assms Some show ?thesis by (simp add: findClosestPreviousYearWeek_def Let_def)
  next
    case False
    with assms Some
    have "closestWeek (fold (closest_step env ?e raw) prev closest_init) = Some w"
      by (simp add: findClosestPreviousYearWeek_def Let_def)
    then show ?thesis
      by (rule closest_fold_sound [where P = "\<lambda>w. w \<in> set prev", rotated 2])
         (auto simp: closest_init_def)
  qed
qed

text \<open>
  C1, as the code has it. \<^verbatim>\<open>findClosestPreviousYearWeek\<close> is given the full list of
  previous-year weeks at every call and keeps no record of the weeks already chosen, so
  the pairs of a run are the pairs of its weeks taken one at a time, and every chosen
  week is a member of the previous-year list. Two current-year weeks can therefore be
  paired with the same previous-year week.
\<close>

theorem pairing_independent:
  "buildWeekPairs env cur prev raw = concat (map (\<lambda>c. buildWeekPairs env [c] prev raw) cur) \<and>
   (\<forall>p\<in>set (buildWeekPairs env cur prev raw). \<forall>w. previous p = Some w \<longrightarrow> w \<in> set prev)"
proof
  show "buildWeekPairs env cur prev raw = concat (map (\<lambda>c. buildWeekPairs env [c] prev raw) cur)"
    by (induction cur) (simp_all add: buildWeekPairs_map)
  show "\<forall>p\<in>set (buildWeekPairs env cur prev raw). \<forall>w. previous p = Some w \<longrightarrow> w \<in> set prev"
    by (auto simp: buildWeekPairs_map split: option.splits if_splits dest: findClosest_member)
qed

theorem pairing_independent_witness:
  "buildWeekPairs utcEnv [''2025-01-06'', ''2025-01-13'']
       [''2024-01-01'', ''2024-01-08'', ''2024-01-15''] []
     = buildWeekPairs utcEnv [''2025-01-06''] [''2024-01-01'', ''2024-01-08'', ''2024-01-15''] []
       @ buildWeekPairs utcEnv [''2025-01-13''] [''2024-01-01'', ''2024-01-08'', ''2024-01-15''] [] \<and>
   \<lparr>current = ''2025-01-06'', previous = Some ''2024-01-08''\<rparr>
     \<in> set (buildWeekPairs utcEnv [''2025-01-06'', ''2025-01-13'']
               [''2024-01-01'', ''2024-01-08'', ''2024-01-15''] []) \<and>
   ''2024-01-08'' \<in> set [''2024-01-01'', ''2024-01-08'', ''2024-01-15'']"
proof -
  let ?cur = "[''2025-01-06'', ''2025-01-13'']"
  let ?prev = "[''2024-01-01'', ''2024-01-08'', ''2024-01-15'']"
  have mem: "\<lparr>current = ''2025-01-06'', previous = Some ''2024-01-08''\<rparr>
      \<in> set (buildWeekPairs utcEnv ?cur ?prev [])"
    by code_simp
  from pairing_independent [of utcEnv ?cur ?prev "[]"] mem show ?thesis by simp
qed

text \<open>
  C1 as stated fails: with a gap in the previous year's weeks, the weeks of 6 and of
  13 January 2025 are both paired with the week of 8 January 2024.
\<close>

theorem comparison_uniqueness_counterexample:
  "weeklyPairs utcEnv 2025
     (processData utcEnv []
        [Some (sampleRow ''2025-01-13'' 2000000 20), Some (sampleRow ''2025-01-06'' 1000000 10),
         Some (sampleRow ''2024-01-08'' 3000000 30)])
   = [\<lparr>current = ''2025-01-06'', previous = Some ''2024-01-08''\<rparr>,
      \<lparr>current = ''2025-01-13'', previous = Some ''2024-01-08''\<rparr>]"
  by code_simp









text \<open>
  C4. The pairing loop emits the current-year weeks in order, one pair each, and a week
  for which no previous-year week is found is emitted with a \<^verbatim>\<open>null\<close> previous week.
\<close>

theorem pairing_totality:
  "map current (buildWeekPairs env cur prev raw) = cur \<and>
   length (buildWeekPairs env cur prev raw) = length cur \<and>
   (\<forall>i<length cur. findClosestPreviousYearWeek env (cur ! i) prev raw = None \<longrightarrow>
        buildWeekPairs env cur prev raw ! i = \<lparr>current = cur ! i, previous = None\<rparr>)"
  by (simp add: buildWeekPairs_map comp_def)

theorem pairing_totality_witness:
  "findClosestPreviousYearWeek utcEnv ''2025-03-03'' [''2024-01-01''] [] = None \<and>
   map current (buildWeekPairs utcEnv [''2025-03-03''] [''2024-01-01''] []) = [''2025-03-03''] \<and>
   buildWeekPairs utcEnv [''2025-03-03''] [''2024-01-01''] [] ! 0
     = \<lparr>current = ''2025-03-03'', previous = None\<rparr>"
proof -
  have h: "findClosestPreviousYearWeek utcEnv ''2025-03-03'' [''2024-01-01''] [] = None"
    by code_simp
  from pairing_totality [of utcEnv "[''2025-03-03'']" "[''2024-01-01'']" "[]"] h
  show ?thesis by simp
qed

section \<open>Properties of record processing\<close>

lemma mathRound_near: "\<bar>mathRound q - q\<bar> \<le> 1 / 2"
proof -
  have "of_int \<lfloor>q + 1 / 2\<rfloor> \<le> q + 1 / 2" by (rule of_int_floor_le)
  moreover have "q + 1 / 2 < of_int \<lfloor>q + 1 / 2\<rfloor> + 1"
    using floor_correct [of "q + 1 / 2"] by simp
  ultimately show ?thesis unfolding mathRound_def by linarith
qed

lemma round2_cents: "round2 q = fl (of_int \<lfloor>fl (q * 100) + 1 / 2\<rfloor> / 100)"
  by (simp add: round2_def mathRound_def)

lemma round2_near: "\<bar>round2 x - x\<bar> \<le> 1 / 200 + (\<bar>x\<bar> + 1) / 2 ^ 51"
proof -
  define x2 where "x2 = fl (x * 100)"
  define k where "k = mathRound x2"
  define r where "r = fl (k / 100)"
  have e1: "\<bar>x2 - x * 100\<bar> \<le> \<bar>x\<bar> * 100 / 2 ^ 53"
    using fl_error [of "x * 100"] by (simp add: x2_def abs_mult)
  have e2: "\<bar>k - x2\<bar> \<le> 1 / 2" unfolding k_def by (rule mathRound_near)
  have e3: "\<bar>r - k / 100\<bar> \<le> \<bar>k\<bar> / 100 / 2 ^ 53"
    using fl_error [of "k / 100"] by (simp add: r_def)
  have k: "\<bar>k\<bar> \<le> \<bar>x\<bar> * 100 + \<bar>x\<bar> * 100 / 2 ^ 53 + 1 / 2" using e1 e2 by linarith
  have "\<bar>k\<bar> / 100 / 2 ^ 53 \<le> (\<bar>x\<bar> * 100 + \<bar>x\<bar> * 100 / 2 ^ 53 + 1 / 2) / 100 / 2 ^ 53"
    using k by (simp add: divide_right_mono)
  with e3 have e3': "\<bar>r - k / 100\<bar> \<le> (\<bar>x\<bar> * 100 + \<bar>x\<bar> * 100 / 2 ^ 53 + 1 / 2) / 100 / 2 ^ 53"
    by linarith
  define b where "b = (k - x2) / 100"
  define c where "c = (x2 - x * 100) / 100"
  have "r - x = (r - k / 100) + b + c"
    by (simp add: b_def c_def diff_divide_distrib)
  then have "\<bar>r - x\<bar> \<le> \<bar>r - k / 100\<bar> + \<bar>b\<bar> + \<bar>c\<bar>" by linarith
  moreover have "\<bar>b\<bar> = \<bar>k - x2\<bar> / 100" "\<bar>c\<bar> = \<bar>x2 - x * 100\<bar> / 100"
    by (simp_all add: b_def c_def)
  ultimately have "\<bar>r - x\<bar> \<le> \<bar>r - k / 100\<bar> + \<bar>k - x2\<bar> / 100 + \<bar>x2 - x * 100\<bar> / 100"
    by simp
  moreover have "\<bar>k - x2\<bar> / 100 \<le> 1 / 200" using e2 by simp
  moreover have "\<bar>x2 - x * 100\<bar> / 100 \<le> \<bar>x\<bar> / 2 ^ 53" using e1 by simp
  ultimately have "\<bar>r - x\<bar> \<le> (\<bar>x\<bar> * 100 + \<bar>x\<bar> * 100 / 2 ^ 53 + 1 / 2) / 100 / 2 ^ 53
      + 1 / 200 + \<bar>x\<bar> / 2 ^ 53"
    using e3' by linarith
  also have "\<dots> \<le> 1 / 200 + (\<bar>x\<bar> + 1) / 2 ^ 51"
  proof -
    have "0 \<le> \<bar>x\<bar>" by simp
    then show ?thesis by (simp add: field_simps)
  qed
  finally show ?thesis by (simp add: round2_def r_def k_def x2_def)
qed

lemma cost_near:
  "\<bar>round2 (fl q) - q\<bar> \<le> 1 / 200 + (\<bar>q\<bar> + 1) / 2 ^ 49"
proof -
  have a: "\<bar>fl q - q\<bar> \<le> \<bar>q\<bar> / 2 ^ 53" by (rule fl_error)
  have b: "\<bar>round2 (fl q) - fl q\<bar> \<le> 1 / 200 + (\<bar>fl q\<bar> + 1) / 2 ^ 51" by (rule round2_near)
  have c: "\<bar>fl q\<bar> \<le> \<bar>q\<bar> + \<bar>q\<bar> / 2 ^ 53" using a by linarith
  have "(\<bar>fl q\<bar> + 1) / 2 ^ 51 \<le> (\<bar>q\<bar> + \<bar>q\<bar> / 2 ^ 53 + 1) / 2 ^ 51"
    using c by (simp add: divide_right_mono)
  with a b have "\<bar>round2 (fl q) - q\<bar> \<le> 1 / 200 + (\<bar>q\<bar> + \<bar>q\<bar> / 2 ^ 53 + 1) / 2 ^ 51 + \<bar>q\<bar> / 2 ^ 53"
    by linarith
  also have "\<dots> \<le> 1 / 200 + (\<bar>q\<bar> + 1) / 2 ^ 49"
  proof -
    have "0 \<le> \<bar>q\<bar>" by simp
    then show ?thesis by (simp add: field_simps)
  qed
  finally show ?thesis .
qed

lemma process_step_out:
  "rows_out (process_step env b r st)
     = rows_out st @ (case r of None \<Rightarrow> [] | Some row \<Rightarrow> [processRow env b row])"
  by (simp add: process_step_def Let_def split: option.splits)

lemma process_step_count: "rec_count (process_step env b r st) = rec_count st + 1"
  by (simp add: process_step_def Let_def split: option.splits)

lemma process_fold:
  "rows_out (fold (process_step env b) rows st)
     = rows_out st @ map (processRow env b) (List.map_filter id rows) \<and>
   rec_count (fold (process_step env b) rows st) = rec_count st + length rows"
proof (induction rows arbitrary: st)
  case Nil
  then show ?case by (simp add: List.map_filter_simps)
next
  case (Cons r rows)
  show ?case
    using Cons.IH [of "process_step env b r st"]
    by (cases r) (simp_all add: process_step_out process_step_count List.map_filter_simps)
qed

lemma sample_cost:
  "cost (processRow env b (sampleRow w 1000000 10)) = 1"
  "costPerClick (processRow env b (sampleRow w 1000000 10)) = Fin (fl (1 / 10))"
  "cost (processRow env b (sampleRow w 1004999 10)) = 1"
  "costPerClick (processRow env b (sampleRow w 1004999 10)) = Fin (fl (1 / 10))"
  "cost (processRow env b (sampleRow w 1005000 10)) = 1"
  "cost (processRow env b (sampleRow w 1150000 2)) = fl (115 / 100)"
  "costPerClick (processRow env b (sampleRow w 1150000 2)) = Fin (fl (57 / 100))"
  "cost (processRow env b (sampleRow w 996000 200)) = 1"
  "costPerClick (processRow env b (sampleRow w 996000 200)) = Fin (fl (1 / 100))"
  by code_simp+

lemma processData_eq:
  "processData env b rows = map (processRow env b) (List.map_filter id rows)"
  by (simp add: processData_def process_loop_def process_fold)

lemma showNat_nonempty: "showNat n \<noteq> []"
  by (subst showNat.simps) simp

lemma empty_not_in_yearWeeks: "[] \<notin> set (yearWeeks y raw)"
  by (simp add: yearWeeks_def showNat_nonempty)

text \<open>
  C10. Every stored record carries the cost in currency units rounded to cents,
  \<^verbatim>\<open>Math.round((costMicros / 1000000) * 100) / 100\<close>, and the conversion value rounded to
  cents: each is the double nearest to a whole number of cents, the cost differs from
  the exact amount by at most half a cent plus the rounding error of the double
  operations, and every record that is read is stored this way. A cost of 1000000 micros with 10
  clicks is stored as 1.00 with a cost per click of 0.10; so is a cost of 1004999 micros.
  The ratios are taken of the rounded cost: 996000 micros with 200 clicks are stored as
  1.00 with a cost per click of 0.01, where the exact amount would give 0. The product
  with 100 is a double, so an amount that ends in half a cent can go either way:
  1005000 micros are stored as 1.00, and 1150000 micros with 2 clicks give a cost per
  click of 0.57.
\<close>

theorem cost_normalization:
  "cost (processRow env b row) = round2 (fl (numberOrZero (metrics_costMicros row) / 1000000)) \<and>
   conversionValue (processRow env b row) = round2 (numberOrZero (metrics_conversionsValue row)) \<and>
   (\<exists>k::int. cost (processRow env b row) = fl (of_int k / 100)) \<and>
   (\<exists>k::int. conversionValue (processRow env b row) = fl (of_int k / 100)) \<and>
   \<bar>cost (processRow env b row) - numberOrZero (metrics_costMicros row) / 1000000\<bar>
     \<le> 1 / 200 + (\<bar>numberOrZero (metrics_costMicros row) / 1000000\<bar> + 1) / 2 ^ 49 \<and>
   \<bar>conversionValue (processRow env b row) - numberOrZero (metrics_conversionsValue row)\<bar>
     \<le> 1 / 200 + (\<bar>numberOrZero (metrics_conversionsValue row)\<bar> + 1) / 2 ^ 51 \<and>
   processData env b (map Some rs) = map (processRow env b) rs \<and>
   cost (processRow env b (sampleRow ''2025-02-01'' 1000000 10)) = 1 \<and>
   costPerClick (processRow env b (sampleRow ''2025-02-01'' 1000000 10)) = Fin (fl (1 / 10)) \<and>
   cost (processRow env b (sampleRow ''2025-02-01'' 1004999 10)) = 1 \<and>
   costPerClick (processRow env b (sampleRow ''2025-02-01'' 1004999 10)) = Fin (fl (1 / 10)) \<and>
   cost (processRow env b (sampleRow ''2025-02-01'' 996000 200)) = 1 \<and>
   costPerClick (processRow env b (sampleRow ''2025-02-01'' 996000 200)) = Fin (fl (1 / 100)) \<and>
   cost (processRow env b (sampleRow ''2025-02-01'' 1005000 10)) = 1 \<and>
   cost (processRow env b (sampleRow ''2025-02-01'' 1150000 2)) = fl (115 / 100) \<and>
   costPerClick (processRow env b (sampleRow ''2025-02-01'' 1150000 2)) = Fin (fl (57 / 100))"
proof -
  have c: "cost (processRow env b row)
      = round2 (fl (numberOrZero (metrics_costMicros row) / 1000000))"
    by (simp add: processRow_def Let_def round2_def)
  have v: "conversionValue (processRow env b row)
      = round2 (numberOrZero (metrics_conversionsValue row))"
    by (simp add: processRow_def Let_def round2_def)
  have ck: "\<exists>k::int. cost (processRow env b row) = fl (of_int k / 100)"
    unfolding c round2_cents by blast
  have vk: "\<exists>k::int. conversionValue (processRow env b row) = fl (of_int k / 100)"
    unfolding v round2_cents by blast
  have near: "\<bar>cost (processRow env b row) - numberOrZero (metrics_costMicros row) / 1000000\<bar>
     \<le> 1 / 200 + (\<bar>numberOrZero (metrics_costMicros row) / 1000000\<bar> + 1) / 2 ^ 49"
    unfolding c by (rule cost_near)
  have vnear: "\<bar>conversionValue (processRow env b row) - numberOrZero (metrics_conversionsValue row)\<bar>
     \<le> 1 / 200 + (\<bar>numberOrZero (metrics_conversionsValue row)\<bar> + 1) / 2 ^ 51"
    unfolding v by (rule round2_near)
  have all: "processData env b (map Some rs) = map (processRow env b) rs"
    by (simp add: processData_eq List.map_filter_def comp_def)
  note e = sample_cost [of env b "''2025-02-01''"]
  show ?thesis by (intro conjI c v ck vk near vnear all e(1) e(2) e(3) e(4) e(8) e(9) e(5) e(6) e(7))
qed

text \<open>
  C8, as the code has it. Every row that can be read is stored, in order, whatever its
  week start; a row that cannot be read is left out and the loop goes on with the rest.
  The summary reports the number of rows seen and the number stored, nothing else. A
  missing week start is stored as the empty string, which is in no year's list of weeks;
  any other week start is stored as it is.
\<close>

theorem malformed_record_kept:
  "processData env b rows = map (processRow env b) (List.map_filter id rows) \<and>
   totalRecords (processingSummary env b rows) = length rows \<and>
   processedRecords (processingSummary env b rows) = length (processData env b rows) \<and>
   weekStart (processRow env b (row\<lparr>segments_week := None\<rparr>)) = [] \<and>
   weekStart (processRow env b (row\<lparr>segments_week := Some w\<rparr>)) = w \<and>
   [] \<notin> set (yearWeeks y raw)"
  by (simp add: processData_eq processingSummary_def Let_def process_loop_def process_fold
      empty_not_in_yearWeeks processRow_def stringOrEmpty_def)

text \<open>
  C8 as stated fails: a record whose week start is the malformed \<^verbatim>\<open>2025-W02\<close> is
  stored, becomes a week of 2025 with its own pair, and the summary counts one record
  seen and one stored, so that no record is counted as skipped.
\<close>

theorem malformed_record_counterexample:
  "parseDate utcEnv ''2025-W02'' = None \<and>
   yearWeeks 2025 (processData utcEnv [] [Some (sampleRow ''2025-W02'' 1000000 10)])
     = [''2025-W02''] \<and>
   weeklyPairs utcEnv 2025 (processData utcEnv [] [Some (sampleRow ''2025-W02'' 1000000 10)])
     = [\<lparr>current = ''2025-W02'', previous = None\<rparr>] \<and>
   processingSummary utcEnv [] [Some (sampleRow ''2025-W02'' 1000000 10)]
     = \<lparr>totalRecords = 1, brandRecords = 0, processedRecords = 1\<rparr>"
  by code_simp

section \<open>Properties of the monthly pairing\<close>

lemma includes_nonempty: "includes_str s t \<Longrightarrow> t \<noteq> [] \<Longrightarrow> s \<noteq> []"
  by (cases s) auto

lemma yearMonths_nonempty: "m \<in> set (yearMonths y raw) \<Longrightarrow> m \<noteq> []"
  by (auto simp: yearMonths_def dest: includes_nonempty [OF _ showNat_nonempty])

lemma slice0_subset: "set (slice0 n xs) \<subseteq> set xs"
  by (auto simp: slice0_def dest: in_set_takeD)

lemma previousYearMonths_nonempty:
  assumes "m \<in> set (previousYearMonths env now raw)"
  shows "m \<noteq> []"
proof -
  have "m \<in> set (yearMonths (getFullYear (scriptZone env) now - 1) raw)"
    using assms slice0_subset [of "currentMonthNumber env now"
        "yearMonths (getFullYear (scriptZone env) now - 1) raw"]
    unfolding previousYearMonths_def by (rule subsetD [rotated])
  then show ?thesis by (rule yearMonths_nonempty)
qed

lemma limitedCurrentYearMonths_nonempty:
  assumes "m \<in> set (limitedCurrentYearMonths env now raw)"
  shows "m \<noteq> []"
proof -
  have "m \<in> set (yearMonths (getFullYear (scriptZone env) now) raw)"
    using assms slice0_subset [of "currentMonthNumber env now"
        "yearMonths (getFullYear (scriptZone env) now) raw"]
    unfolding limitedCurrentYearMonths_def by (rule subsetD [rotated])
  then show ?thesis by (rule yearMonths_nonempty)
qed

lemma itemOrNull_nonempty:
  "(\<And>m. m \<in> set xs \<Longrightarrow> m \<noteq> []) \<Longrightarrow>
   itemOrNull xs i = (if i < length xs then Some (xs ! i) else None)"
  by (simp add: itemOrNull_def)

text \<open>
  C6. The monthly builder cuts the current-year and the previous-year month lists with
  the same count, the number of the last complete month, and pairs by position: the
  \<open>i\<close>-th row holds the \<open>i\<close>-th current-year month and the \<open>i\<close>-th previous-year month
  (\<^verbatim>\<open>null\<close> when the previous-year list is shorter). When both years have at least that
  many months, both cut lists have exactly that many.
\<close>

theorem monthly_positional_pairing:
  "limitedCurrentYearMonths env now raw
     = slice0 (currentMonthNumber env now) (yearMonths (getFullYear (scriptZone env) now) raw) \<and>
   previousYearMonths env now raw
     = slice0 (currentMonthNumber env now)
         (yearMonths (getFullYear (scriptZone env) now - 1) raw) \<and>
   length (monthlyPairs env now raw) = length (limitedCurrentYearMonths env now raw) \<and>
   (\<forall>i<length (limitedCurrentYearMonths env now raw).
      monthlyPairs env now raw ! i
        = \<lparr>monthNumber = i + 1,
           currentMonth = Some (limitedCurrentYearMonths env now raw ! i),
           previousMonth = (if i < length (previousYearMonths env now raw)
                            then Some (previousYearMonths env now raw ! i) else None)\<rparr>) \<and>
   1 \<le> currentMonthNumber env now \<and> currentMonthNumber env now \<le> 12 \<and>
   (nat (currentMonthNumber env now)
      \<le> length (yearMonths (getFullYear (scriptZone env) now) raw) \<and>
    nat (currentMonthNumber env now)
      \<le> length (yearMonths (getFullYear (scriptZone env) now - 1) raw) \<longrightarrow>
      length (limitedCurrentYearMonths env now raw) = nat (currentMonthNumber env now) \<and>
      length (previousYearMonths env now raw) = nat (currentMonthNumber env now))"
proof -
  have a: "limitedCurrentYearMonths env now raw
     = slice0 (currentMonthNumber env now) (yearMonths (getFullYear (scriptZone env) now) raw)"
    by (simp add: limitedCurrentYearMonths_def)
  have b: "previousYearMonths env now raw
     = slice0 (currentMonthNumber env now)
         (yearMonths (getFullYear (scriptZone env) now - 1) raw)"
    by (simp add: previousYearMonths_def)
  have c: "length (monthlyPairs env now raw) = length (limitedCurrentYearMonths env now raw)"
    by (simp add: monthlyPairs_def Let_def)
  have d: "\<forall>i<length (limitedCurrentYearMonths env now raw).
      monthlyPairs env now raw ! i
        = \<lparr>monthNumber = i + 1,
           currentMonth = Some (limitedCurrentYearMonths env now raw ! i),
           previousMonth = (if i < length (previousYearMonths env now raw)
                            then Some (previousYearMonths env now raw ! i) else None)\<rparr>"
  proof (intro allI impI)
    fix i assume i: "i < length (limitedCurrentYearMonths env now raw)"
    have p: "itemOrNull (previousYearMonths env now raw) i
        = (if i < length (previousYearMonths env now raw)
           then Some (previousYearMonths env now raw ! i) else None)"
      by (rule itemOrNull_nonempty) (rule previousYearMonths_nonempty)
    have q: "itemOrNull (limitedCurrentYearMonths env now raw) i
        = Some (limitedCurrentYearMonths env now raw ! i)"
      using i itemOrNull_nonempty [of "limitedCurrentYearMonths env now raw" i]
        limitedCurrentYearMonths_nonempty [of _ env now raw] by simp
    show "monthlyPairs env now raw ! i
        = \<lparr>monthNumber = i + 1,
           currentMonth = Some (limitedCurrentYearMonths env now raw ! i),
           previousMonth = (if i < length (previousYearMonths env now raw)
                            then Some (previousYearMonths env now raw ! i) else None)\<rparr>"
      using i by (simp add: monthlyPairs_def Let_def p q)
  qed
  have e: "nat (currentMonthNumber env now)
      \<le> length (yearMonths (getFullYear (scriptZone env) now) raw) \<and>
    nat (currentMonthNumber env now)
      \<le> length (yearMonths (getFullYear (scriptZone env) now - 1) raw) \<longrightarrow>
      length (limitedCurrentYearMonths env now raw) = nat (currentMonthNumber env now) \<and>
      length (previousYearMonths env now raw) = nat (currentMonthNumber env now)"
    unfolding a b using currentMonthNumber_range [of env now] by (simp add: slice0_def)
  have k: "1 \<le> currentMonthNumber env now" "currentMonthNumber env now \<le> 12"
    using currentMonthNumber_range [of env now] by simp_all
  show ?thesis by (intro conjI a b c d k e)
qed

theorem monthly_positional_pairing_witness:
  "(1::nat) < length (limitedCurrentYearMonths utcEnv 1744675200000
       (map sampleMonthRow [''2025-03-01'', ''2024-01-01'', ''2025-01-01'', ''2024-02-01'',
          ''2024-03-01'', ''2024-04-01'', ''2025-02-01''])) \<and>
   monthlyPairs utcEnv 1744675200000
       (map sampleMonthRow [''2025-03-01'', ''2024-01-01'', ''2025-01-01'', ''2024-02-01'',
          ''2024-03-01'', ''2024-04-01'', ''2025-02-01'']) ! 1
     = \<lparr>monthNumber = 2, currentMonth = Some ''2025-02-01'', previousMonth = Some ''2024-02-01''\<rparr> \<and>
   nat (currentMonthNumber utcEnv 1744675200000)
     \<le> length (yearMonths (getFullYear (scriptZone utcEnv) 1744675200000)
       (map sampleMonthRow [''2025-03-01'', ''2024-01-01'', ''2025-01-01'', ''2024-02-01'',
          ''2024-03-01'', ''2024-04-01'', ''2025-02-01''])) \<and>
   nat (currentMonthNumber utcEnv 1744675200000)
     \<le> length (yearMonths (getFullYear (scriptZone utcEnv) 1744675200000 - 1)
       (map sampleMonthRow [''2025-03-01'', ''2024-01-01'', ''2025-01-01'', ''2024-02-01'',
          ''2024-03-01'', ''2024-04-01'', ''2025-02-01''])) \<and>
   length (previousYearMonths utcEnv 1744675200000
       (map sampleMonthRow [''2025-03-01'', ''2024-01-01'', ''2025-01-01'', ''2024-02-01'',
          ''2024-03-01'', ''2024-04-01'', ''2025-02-01''])) = 3"
proof -
  let ?raw = "map sampleMonthRow [''2025-03-01'', ''2024-01-01'', ''2025-01-01'', ''2024-02-01'',
          ''2024-03-01'', ''2024-04-01'', ''2025-02-01'']"
  let ?now = "1744675200000 :: int"
  have k: "currentMonthNumber utcEnv ?now = 3" by code_simp
  have lim: "limitedCurrentYearMonths utcEnv ?now ?raw
      = [''2025-01-01'', ''2025-02-01'', ''2025-03-01'']"
    by code_simp
  have prv: "previousYearMonths utcEnv ?now ?raw = [''2024-01-01'', ''2024-02-01'', ''2024-03-01'']"
    by code_simp
  have yc: "length (yearMonths (getFullYear (scriptZone utcEnv) ?now) ?raw) = 3" by code_simp
  have yp: "length (yearMonths (getFullYear (scriptZone utcEnv) ?now - 1) ?raw) = 4" by code_simp
  note t = monthly_positional_pairing [of utcEnv ?now ?raw]
  have l1: "(1::nat) < length (limitedCurrentYearMonths utcEnv ?now ?raw)" unfolding lim by simp
  from t have "\<forall>i<length (limitedCurrentYearMonths utcEnv ?now ?raw).
      monthlyPairs utcEnv ?now ?raw ! i
        = \<lparr>monthNumber = i + 1,
           currentMonth = Some (limitedCurrentYearMonths utcEnv ?now ?raw ! i),
           previousMonth = (if i < length (previousYearMonths utcEnv ?now ?raw)
                            then Some (previousYearMonths utcEnv ?now ?raw ! i) else None)\<rparr>"
    by blast
  with l1 have "monthlyPairs utcEnv ?now ?raw ! 1
        = \<lparr>monthNumber = 1 + 1,
           currentMonth = Some (limitedCurrentYearMonths utcEnv ?now ?raw ! 1),
           previousMonth = (if 1 < length (previousYearMonths utcEnv ?now ?raw)
                            then Some (previousYearMonths utcEnv ?now ?raw ! 1) else None)\<rparr>"
    by blast
  then have p1: "monthlyPairs utcEnv ?now ?raw ! 1
     = \<lparr>monthNumber = 2, currentMonth = Some ''2025-02-01'', previousMonth = Some ''2024-02-01''\<rparr>"
    unfolding lim prv by simp
  have h2: "nat (currentMonthNumber utcEnv ?now)
      \<le> length (yearMonths (getFullYear (scriptZone utcEnv) ?now) ?raw)"
    unfolding k yc by simp
  have h3: "nat (currentMonthNumber utcEnv ?now)
      \<le> length (yearMonths (getFullYear (scriptZone utcEnv) ?now - 1) ?raw)"
    unfolding k yp by simp
  from t h2 h3 have "length (previousYearMonths utcEnv ?now ?raw) = nat (currentMonthNumber utcEnv ?now)"
    by blast
  then have p2: "length (previousYearMonths utcEnv ?now ?raw) = 3" unfolding k by simp
  show ?thesis by (intro conjI l1 p1 h2 h3 p2)
qed

section \<open>Properties of the formula builder\<close>

lemma same_sheet_refl: "same_sheet s s"
  by (simp add: same_sheet_def)

lemma same_sheet_trans: "same_sheet a b \<Longrightarrow> same_sheet b c \<Longrightarrow> same_sheet a c"
  by (simp add: same_sheet_def)

lemma same_sheet_sym: "same_sheet a b \<Longrightarrow> same_sheet b a"
  by (simp add: same_sheet_def)

lemma same_sheet_name: "same_sheet a b \<Longrightarrow> functionNameOf a t = functionNameOf b t"
  by (simp add: same_sheet_def functionNameOf_def)

lemma reads_only_return: "reads_only (State_Monad.return x)"
  by (simp add: reads_only_def same_sheet_refl)

lemma reads_only_bind:
  assumes m: "reads_only m" and f: "\<And>x. reads_only (f x)"
  shows "reads_only (State_Monad.bind m f)"
  unfolding reads_only_def
proof (intro conjI allI impI)
  fix s
  have "same_sheet s (snd (run_state m s))" using m by (simp add: reads_only_def)
  moreover have "same_sheet (snd (run_state m s))
      (snd (run_state (f (fst (run_state m s))) (snd (run_state m s))))"
    using f by (simp add: reads_only_def)
  ultimately show "same_sheet s (snd (run_state (State_Monad.bind m f) s))"
    by (simp add: split_def) (rule same_sheet_trans)
next
  fix s t assume st: "same_sheet s t"
  have r: "fst (run_state m s) = fst (run_state m t)" using m st by (simp add: reads_only_def)
  have "same_sheet (snd (run_state m s)) (snd (run_state m t))"
    using m st by (meson reads_only_def same_sheet_sym same_sheet_trans)
  then have "fst (run_state (f (fst (run_state m s))) (snd (run_state m s)))
      = fst (run_state (f (fst (run_state m s))) (snd (run_state m t)))"
    using f by (simp add: reads_only_def)
  then show "fst (run_state (State_Monad.bind m f) s) = fst (run_state (State_Monad.bind m f) t)"
    by (simp add: split_def r)
qed

lemma run_getLocaleAwareFormula:
  "run_state (getLocaleAwareFormula t args) s =
     ((if t = ''IF'' \<or> t = ''SUMIFS'' \<or> t = ''OFFSET''
       then ''='' @ functionNameOf s t @ ''('' @ join '','' args @ '')''
       else ''='' @ t @ ''('' @ join '','' args @ '')''),
      s\<lparr>logger := logger (snd (run_state (getLocaleAwareFormula t args) s))\<rparr>)"
  by (simp add: getLocaleAwareFormula_def debugLog_def functionNameOf_def Let_def)

lemma reads_only_getLocaleAwareFormula: "reads_only (getLocaleAwareFormula t args)"
  unfolding reads_only_def
proof (intro conjI allI impI)
  fix s
  show "same_sheet s (snd (run_state (getLocaleAwareFormula t args) s))"
    by (subst run_getLocaleAwareFormula) (simp add: same_sheet_def)
next
  fix s u assume "same_sheet s u"
  then show "fst (run_state (getLocaleAwareFormula t args) s)
      = fst (run_state (getLocaleAwareFormula t args) u)"
    by (subst (1 2) run_getLocaleAwareFormula) (simp add: same_sheet_name)
qed

lemma reads_only_createIfFormula: "reads_only (createIfFormula c t f)"
  by (simp add: createIfFormula_def reads_only_getLocaleAwareFormula)

lemma reads_only_createSumifsFormula: "reads_only (createSumifsFormula a b c d e f g)"
  by (simp add: createSumifsFormula_def reads_only_getLocaleAwareFormula)

lemma reads_only_createComplexSumifsFormula:
  "reads_only (createComplexSumifsFormula a b c d e f g)"
  unfolding createComplexSumifsFormula_def
  by (intro reads_only_bind reads_only_createIfFormula reads_only_createSumifsFormula)

lemma reads_only_sumifsOrZero: "reads_only (sumifsOrZero col week quoted)"
  by (cases week)
     (simp_all add: sumifsOrZero_def reads_only_return reads_only_createComplexSumifsFormula)

lemma reads_only_ratioFormula: "reads_only (ratioFormula n d r)"
  by (simp add: ratioFormula_def reads_only_createIfFormula)

lemma reads_only_ratioOrZero: "reads_only (ratioOrZero week n d r)"
  by (cases week) (simp_all add: ratioOrZero_def reads_only_return reads_only_ratioFormula)

lemma reads_only_indexFormula: "reads_only (indexFormula c p r)"
  by (simp add: indexFormula_def reads_only_createIfFormula)

lemma reads_only_wowFormula: "reads_only (wowFormula c r)"
  unfolding wowFormula_def by (intro reads_only_bind reads_only_createIfFormula)

lemmas reads_only_parts =
  reads_only_return reads_only_sumifsOrZero reads_only_ratioFormula reads_only_ratioOrZero
  reads_only_indexFormula reads_only_wowFormula

lemma reads_only_formulaRow: "reads_only (formulaRow i pair)"
  unfolding formulaRow_def Let_def
  by (intro reads_only_bind reads_only_parts)

lemma reads_only_formulaRows: "reads_only (formulaRows i pairs)"
proof (induction pairs arbitrary: i)
  case Nil
  show ?case by (simp add: reads_only_return)
next
  case (Cons p ps)
  show ?case
    unfolding formulaRows.simps
    by (intro reads_only_bind reads_only_formulaRow Cons.IH reads_only_return)
qed

text \<open>
  C9. Building the formula rows a second time, in the spreadsheet state the first
  build left behind, gives the same rows, cell for cell; and the rows do not depend on
  the values of the filter cells or on the log.
\<close>

theorem formula_builder_idempotent:
  "fst (run_state (formulaData weekPairs) (snd (run_state (formulaData weekPairs) env)))
     = fst (run_state (formulaData weekPairs) env) \<and>
   fst (run_state (formulaData weekPairs) (env\<lparr>filters := fs, logger := lg\<rparr>))
     = fst (run_state (formulaData weekPairs) env)"
proof -
  have ro: "reads_only (formulaData weekPairs)"
    by (simp add: formulaData_def reads_only_formulaRows)
  have "same_sheet env (snd (run_state (formulaData weekPairs) env))"
    using ro by (simp add: reads_only_def)
  then have a: "fst (run_state (formulaData weekPairs) (snd (run_state (formulaData weekPairs) env)))
     = fst (run_state (formulaData weekPairs) env)"
    using ro by (metis reads_only_def)
  have "same_sheet env (env\<lparr>filters := fs, logger := lg\<rparr>)"
    by (simp add: same_sheet_def)
  then have b: "fst (run_state (formulaData weekPairs) (env\<lparr>filters := fs, logger := lg\<rparr>))
     = fst (run_state (formulaData weekPairs) env)"
    using ro by (metis reads_only_def)
  from a b show ?thesis by (rule conjI)
qed

subsection \<open>Guarded ratios\<close>























section \<open>Properties of the date ranges\<close>










text \<open>
  With the script and the account in different zones the weekly range need not end on a
  Sunday. A run on Monday 16 June 2025 at 20:00 in a script zone seven hours behind UTC,
  for an account two hours ahead of UTC, where it is Tuesday 17 June, sets the end of the
  range to Sunday 20:00 script time, which the account zone writes as Monday 16 June.
\<close>

lemma range_end_zones_differ:
  "getDay (fixedZone (- 7 * msPerHour)) 1750129200000 = 1 \<and>
   formatDate (fixedZone (- 7 * msPerHour)) 1750129200000 = ''2025-06-16'' \<and>
   formatDate (fixedZone (2 * msPerHour)) 1750129200000 = ''2025-06-17'' \<and>
   range_end (getDateRange (jsEnv (fixedZone (- 7 * msPerHour)) (fixedZone (2 * msPerHour)))
     1750129200000) = ''2025-06-16'' \<and>
   weekDay (accountDay (jsEnv (fixedZone (- 7 * msPerHour)) (fixedZone (2 * msPerHour)))
     (lastCompleteSunday (jsEnv (fixedZone (- 7 * msPerHour)) (fixedZone (2 * msPerHour)))
        1750129200000)) = 1"
  by code_simp





end
